theory Spec2Isabelle
  imports Complex_Main "HOL-Library.Char_ord" "HOL-Library.List_Lexorder"
begin

section \<open>Python values used by webreqlog.py\<close>

text \<open>
  Python strings are modelled as \<open>string\<close>; every string the program builds for a bucket
  key is ASCII. Python compares strings by code point, position by position, a proper
  prefix being smaller: this is the lexicographic order on \<open>char list\<close>.
  Python integers are unbounded and modelled as \<open>int\<close>.
\<close>

datatype error = ValueError | IndexError

text \<open>The decimal digit of a number below ten, and the value of a digit character.\<close>

definition digit :: "nat \<Rightarrow> char" where
  "digit n = ''0123456789'' ! n"

definition digit_val :: "char \<Rightarrow> nat" where
  "digit_val c = of_char c - 48"

fun dec :: "nat \<Rightarrow> string" where
  "dec n = (if n < 10 then [digit n] else dec (n div 10) @ [digit (n mod 10)])"

declare dec.simps [simp del]

definition zfill :: "nat \<Rightarrow> string \<Rightarrow> string" where
  "zfill w s = replicate (w - length s) (CHR ''0'') @ s"

text \<open>\<open>fmt_d w n\<close> is Python's \<open>"%0wd" % n\<close>: the sign counts in the width.\<close>

definition fmt_d :: "nat \<Rightarrow> int \<Rightarrow> string" where
  "fmt_d w n =
     (if n < 0 then CHR ''-'' # zfill (w - 1) (dec (nat (- n))) else zfill w (dec (nat n)))"

text \<open>
  \<open>py_int s\<close> is Python's \<open>int(s)\<close> on a string of decimal digits with an optional
  leading minus sign, the only strings the program passes to it.
\<close>

definition undec :: "string \<Rightarrow> nat" where
  "undec s = foldl (\<lambda>a c. 10 * a + digit_val c) 0 s"

definition py_int :: "string \<Rightarrow> int" where
  "py_int s =
     (case s of [] \<Rightarrow> 0
      | c # r \<Rightarrow> if c = CHR ''-'' then - int (undec r) else int (undec s))"

text \<open>\<open>d.setdefault(k, v)\<close>: the dictionary afterwards and the value returned.\<close>

definition setdefault :: "('k \<rightharpoonup> 'v) \<Rightarrow> 'k \<Rightarrow> 'v \<Rightarrow> ('k \<rightharpoonup> 'v) \<times> 'v" where
  "setdefault m k v = (case m k of None \<Rightarrow> (m(k \<mapsto> v), v) | Some x \<Rightarrow> (m, x))"

section \<open>seiscomp.core.Time\<close>

text \<open>
  The program reads times through \<open>toString\<close>, compares them and adds
  \<open>TimeSpan(86400)\<close>. A time is modelled as its number of whole seconds since
  1970-01-01T00:00:00 UTC; \<open>toString\<close> is the \<open>strftime\<close> of the UTC broken-down time in
  the proleptic Gregorian calendar, for the conversions the program uses.
\<close>

type_synonym Time = int

record civil =
  c_year :: int
  c_month :: int
  c_day :: int

text \<open>
  The date of a day number (days since 1970-01-01). Days are counted from 0000-03-01 in
  eras of 400 years, centuries, four-year cycles and years, so that the leap day is the
  last day of its cycle.
\<close>

definition civil_from_days :: "int \<Rightarrow> civil" where
  "civil_from_days d =
     (let z = d + 719468;
          era = z div 146097;
          doe = z mod 146097;
          cen = min 3 (doe div 36524);
          doc = doe - 36524 * cen;
          q = doc div 1461;
          doq = doc mod 1461;
          yq = min 3 (doq div 365);
          doy = doq - 365 * yq;
          y = 400 * era + 100 * cen + 4 * q + yq;
          mp = (5 * doy + 2) div 153;
          dd = doy - (153 * mp + 2) div 5 + 1;
          m = (if mp < 10 then mp + 3 else mp - 9)
      in \<lparr>c_year = (if m \<le> 2 then y + 1 else y), c_month = m, c_day = dd\<rparr>)"

definition strftime_field :: "Time \<Rightarrow> char \<Rightarrow> string" where
  "strftime_field t c =
     (if c = CHR ''Y'' then fmt_d 4 (c_year (civil_from_days (t div 86400)))
      else if c = CHR ''m'' then fmt_d 2 (c_month (civil_from_days (t div 86400)))
      else if c = CHR ''d'' then fmt_d 2 (c_day (civil_from_days (t div 86400)))
      else if c = CHR ''H'' then fmt_d 2 (t mod 86400 div 3600)
      else if c = CHR ''M'' then fmt_d 2 (t mod 3600 div 60)
      else if c = CHR ''S'' then fmt_d 2 (t mod 60)
      else if c = CHR ''w'' then fmt_d 1 ((t div 86400 + 4) mod 7)
      else [CHR ''%'', c])"

fun toString :: "Time \<Rightarrow> string \<Rightarrow> string" where
  "toString t (a # b # cs) =
     (if a = CHR ''%'' then strftime_field t b @ toString t cs else a # toString t (b # cs))"
| "toString t cs = cs"

section \<open>class Counter\<close>

text \<open>
  A bucket holds the tuple \<open>(requests, lines, errors, size)\<close>. The size is the sum of
  the volume sizes divided by \<open>1e6\<close>; it is modelled as an exact rational, so the rounding
  of Python's floating-point addition is not part of the model.
\<close>

type_synonym metrics = "int \<times> int \<times> int \<times> rat"

record ArclinkStatusLine =
  sl_volumeID :: string
  sl_status :: string
  sl_size :: int
  sl_message :: string

record WaveformStreamID =
  networkCode :: string
  stationCode :: string
  locationCode :: string
  channelCode :: string

record ArclinkRequestLine =
  streamID :: WaveformStreamID
  rl_start :: Time
  rl_end :: Time
  restricted :: bool
  rl_status :: ArclinkStatusLine

record ArclinkRequestSummary =
  okLineCount :: int
  totalLineCount :: int
  averageTimeWindow :: rat

text \<open>
  \<open>request.summary()\<close> raises when the request has no summary (an unfinished request):
  the field is optional. The two lists are the sub-lines attached to the object; they are
  empty until the database loads them.
\<close>

record ArclinkRequest =
  requestID :: string
  userID :: string
  userIP :: string
  clientID :: string
  clientIP :: string
  req_type :: string
  created :: Time
  req_status :: string
  req_message :: string
  label :: string
  header :: string
  summary :: "ArclinkRequestSummary option"
  arclinkStatusLines :: "ArclinkStatusLine list"
  arclinkRequestLines :: "ArclinkRequestLine list"

record Counter =
  hourly :: "string \<rightharpoonup> metrics"
  daily :: "string \<rightharpoonup> metrics"
  monthly :: "string \<rightharpoonup> metrics"
  weekdaily :: "string \<rightharpoonup> metrics"
  lines :: int
  requests :: int
  errors :: int
  weekdays :: "string list"

definition zero_metrics :: metrics where
  "zero_metrics = (0, 0, 0, 0)"

text \<open>The body of the \<open>while t < end\<close> loop of \<open>Counter.__init__\<close>, and the loop.\<close>

definition preset_day :: "Counter \<Rightarrow> Time \<Rightarrow> Counter" where
  "preset_day c t =
     (let day = toString t ''%Y-%m-%d'';
          c1 = c\<lparr>daily := fst (setdefault (daily c) day zero_metrics)\<rparr>;
          month = toString t ''%Y-%m'';
          c2 = c1\<lparr>monthly := fst (setdefault (monthly c1) month zero_metrics)\<rparr>;
          wd = weekdays c2 ! nat (py_int (toString t ''%w''))
      in c2\<lparr>weekdaily := fst (setdefault (weekdaily c2) wd zero_metrics)\<rparr>)"

function preset_keys :: "Counter \<Rightarrow> Time \<Rightarrow> Time \<Rightarrow> Counter" where
  "preset_keys c t e = (if t < e then preset_keys (preset_day c t) (t + 86400) e else c)"
  by pat_completeness auto
termination
  by (relation "measure (\<lambda>(c, t, e). nat (e - t))") auto

declare preset_keys.simps [simp del]

definition preset_hour :: "nat \<Rightarrow> Counter \<Rightarrow> Counter" where
  "preset_hour h c = c\<lparr>hourly := fst (setdefault (hourly c) (fmt_d 2 (int h)) zero_metrics)\<rparr>"

definition Counter_new :: Counter where
  "Counter_new =
     \<lparr>hourly = Map.empty, daily = Map.empty, monthly = Map.empty, weekdaily = Map.empty,
      lines = 0, requests = 0, errors = 0,
      weekdays = [''$0Sunday'', ''$1Monday'', ''$2Tuesday'', ''$3Wednesday'', ''$4Thursday'',
                  ''$5Friday'', ''$6Saturday'']\<rparr>"

text \<open>
  \<open>Counter.__init__(start, end)\<close>, both arguments defaulting to \<open>None\<close>. The keys are
  preset only \<open>if start and end\<close>; a time object is true. The constructor has no
  \<open>raise\<close>: it always returns the counter.
\<close>

definition Counter_init :: "Time option \<Rightarrow> Time option \<Rightarrow> Counter" where
  "Counter_init start end =
     (case (start, end) of
        (Some s, Some e) \<Rightarrow> fold preset_hour [0..<24] (preset_keys Counter_new s e)
      | _ \<Rightarrow> Counter_new)"

text \<open>
  The pair of statements \<open>(requests, lines, errors, size) = d.setdefault(k, (0,0,0,0))\<close>,
  \<open>d[k] = (requests+1, lines+l, errors+e, size+volSize)\<close>, written four times in
  \<open>Counter.__call__\<close>.
\<close>

definition add_bucket :: "(string \<rightharpoonup> metrics) \<Rightarrow> string \<Rightarrow> int \<Rightarrow> int \<Rightarrow> rat \<Rightarrow> (string \<rightharpoonup> metrics)" where
  "add_bucket d k l e volSize =
     (case setdefault d k zero_metrics of
        (d', (r0, l0, e0, s0)) \<Rightarrow> d'(k \<mapsto> (r0 + 1, l0 + l, e0 + e, s0 + volSize)))"

text \<open>\<open>Counter.__call__(request)\<close>; the only failure is \<open>request.summary()\<close> raising.\<close>

definition Counter_call :: "Counter \<Rightarrow> ArclinkRequest \<Rightarrow> error + Counter" where
  "Counter_call c request =
     (case summary request of
        None \<Rightarrow> Inl ValueError
      | Some sm \<Rightarrow>
          (let date = created request;
               l = totalLineCount sm;
               e = totalLineCount sm - okLineCount sm;
               volSize = of_int (foldl (\<lambda>v sline. v + sl_size sline) 0 (arclinkStatusLines request))
                           / 1000000;
               hour = toString date ''%H'';
               c1 = c\<lparr>hourly := add_bucket (hourly c) hour l e volSize\<rparr>;
               day = toString date ''%Y-%m-%d'';
               c2 = c1\<lparr>daily := add_bucket (daily c1) day l e volSize\<rparr>;
               month = toString date ''%Y-%m'';
               c3 = c2\<lparr>monthly := add_bucket (monthly c2) month l e volSize\<rparr>;
               wd = weekdays c3 ! nat (py_int (toString date ''%w''))
           in Inr (c3\<lparr>weekdaily := add_bucket (weekdaily c3) wd l e volSize\<rparr>)))"

text \<open>
  \<open>loadRequests\<close> calls the counter once for each accepted request, in order; an
  exception ends the sequence.
\<close>

fun accumulate :: "Counter \<Rightarrow> ArclinkRequest list \<Rightarrow> error + Counter" where
  "accumulate c [] = Inr c"
| "accumulate c (r # rs) =
     (case Counter_call c r of Inl err \<Rightarrow> Inl err | Inr c' \<Rightarrow> accumulate c' rs)"

text \<open>
  \<open>wwwChart\<close> shows a weekday key \<open>k\<close> as \<open>k[2:]\<close>. The names are those of
  \<open>strftime\<close>'s \<open>%A\<close> in the C locale, indexed by \<open>%w\<close>.
\<close>

definition weekdayDisplay :: "string \<Rightarrow> string" where
  "weekdayDisplay k = drop 2 k"

definition weekday_names :: "string list" where
  "weekday_names =
     [''Sunday'', ''Monday'', ''Tuesday'', ''Wednesday'', ''Thursday'', ''Friday'', ''Saturday'']"

text \<open>A request used to run the definitions: created on Wednesday 2020-04-01 at 00:00:00.\<close>

definition example_request :: ArclinkRequest where
  "example_request =
     \<lparr>requestID = ''1'', userID = ''user@example.org'', userIP = ''192.0.2.1'', clientID = ''c'',
      clientIP = [], req_type = ''WAVEFORM'', created = 1585699200, req_status = ''END'',
      req_message = [], label = [], header = [],
      summary = Some \<lparr>okLineCount = 2, totalLineCount = 3, averageTimeWindow = 60\<rparr>,
      arclinkStatusLines = [], arclinkRequestLines = []\<rparr>"

text \<open>A loop whose body may raise: the first exception ends it.\<close>

fun for_each :: "('s \<Rightarrow> 'a \<Rightarrow> error + 's) \<Rightarrow> 's \<Rightarrow> 'a list \<Rightarrow> error + 's" where
  "for_each body st [] = Inr st"
| "for_each body st (x # xs) =
     (case body st x of Inl err \<Rightarrow> Inl err | Inr st' \<Rightarrow> for_each body st' xs)"

section \<open>loadRequests\<close>

text \<open>
  The arguments of a session are the dictionary \<open>session.args\<close> of strings.
  \<open>session.args.get(k, False)\<close> is a string or \<open>False\<close>: an optional string, which is
  true in a condition when it is present and not empty.
\<close>

definition truthy :: "string option \<Rightarrow> bool" where
  "truthy v = (case v of None \<Rightarrow> False | Some s \<Rightarrow> s \<noteq> [])"

text \<open>\<open>s.replace(old, new)\<close> for a non-empty \<open>old\<close>, the only use the program makes of it.\<close>

function py_replace :: "string \<Rightarrow> string \<Rightarrow> string \<Rightarrow> string" where
  "py_replace old new s =
     (if old = [] \<or> s = [] then s
      else if take (length old) s = old then new @ py_replace old new (drop (length old) s)
      else hd s # py_replace old new (tl s))"
  by pat_completeness auto
termination
  by (relation "measure (\<lambda>(old, new, s). length s)") auto

declare py_replace.simps [simp del]

text \<open>\<open>s.split(c)\<close> for a single character \<open>c\<close>.\<close>

fun py_split :: "char \<Rightarrow> string \<Rightarrow> string list" where
  "py_split c [] = [[]]"
| "py_split c (x # xs) =
     (if x = c then [] # py_split c xs else (x # hd (py_split c xs)) # tl (py_split c xs))"

text \<open>
  \<open>try: (net, sta, loc, cha) = streamID.split(".")\<close> with its \<open>except\<close> branch: the
  unpacking fails unless there are exactly four parts.
\<close>

definition unpack4 :: "string \<Rightarrow> string list \<Rightarrow> string \<times> string \<times> string \<times> string" where
  "unpack4 dflt ws = (case ws of [a, b, c, d] \<Rightarrow> (a, b, c, d) | _ \<Rightarrow> (dflt, dflt, dflt, dflt))"

text \<open>
  The database is not part of the program. Its query yields the candidate requests, and it
  holds the status lines and the request lines of each request.
\<close>

record DatabaseQuery =
  db_statusLines :: "ArclinkRequest \<Rightarrow> ArclinkStatusLine list"
  db_requestLines :: "ArclinkRequest \<Rightarrow> ArclinkRequestLine list"

definition loadArclinkStatusLines :: "DatabaseQuery \<Rightarrow> ArclinkRequest \<Rightarrow> ArclinkRequest" where
  \<comment> \<open>Modelled from the spec: \<open>DatabaseQuery.loadArclinkStatusLines\<close> belongs to the seiscomp
     library, which is not in the source. The spec has it "idempotent, populate the record's
     respective sub-sequence if empty, no-op otherwise".\<close>
  "loadArclinkStatusLines db request =
     (if arclinkStatusLines request = [] then request\<lparr>arclinkStatusLines := db_statusLines db request\<rparr>
      else request)"

definition loadArclinkRequestLines :: "DatabaseQuery \<Rightarrow> ArclinkRequest \<Rightarrow> ArclinkRequest" where
  \<comment> \<open>Modelled from the spec: \<open>DatabaseQuery.loadArclinkRequestLines\<close>, as above.\<close>
  "loadArclinkRequestLines db request =
     (if arclinkRequestLines request = []
      then request\<lparr>arclinkRequestLines := db_requestLines db request\<rparr>
      else request)"

text \<open>
  The local variables of \<open>loadRequests\<close> when the selection loop starts: \<open>restricted\<close> is
  \<open>False\<close>, \<open>True\<close> or \<open>None\<close>; \<open>userIP\<close> and \<open>clientIP\<close> have \<open>unknown\<close> replaced by the
  empty string; \<open>streamID\<close> has its wildcards removed and is split into four codes.
\<close>

record Args =
  a_restricted :: "bool option"
  a_onlyErrors :: "string option"
  a_lines :: "string option"
  a_volume :: "string option"
  a_message :: "string option"
  a_userIP :: "string option"
  a_clientIP :: "string option"
  a_streamID :: string
  a_net :: string
  a_sta :: string
  a_loc :: string
  a_cha :: string

definition selection_args :: "(string \<rightharpoonup> string) \<Rightarrow> Args" where
  "selection_args args =
     (let restricted0 = (case args ''restricted'' of
                           None \<Rightarrow> None
                         | Some s \<Rightarrow> if s = ''no'' then Some ''0''
                                     else if s = ''yes'' then Some ''1'' else None);
          streamID0 = py_replace ''?'' [] (py_replace ''*'' []
                        (case args ''streamID'' of None \<Rightarrow> [] | Some s \<Rightarrow> s));
          (net, sta, loc, cha) = unpack4 [] (py_split (CHR ''.'') streamID0);
          userIP0 = args ''userIP'';
          clientIP0 = args ''clientIP''
      in \<lparr>a_restricted = (if restricted0 = Some ''0'' then Some False
                         else if restricted0 = Some ''1'' then Some True else None),
          a_onlyErrors = args ''onlyErrors'',
          a_lines = args ''lines'',
          a_volume = args ''volume'',
          a_message = args ''message'',
          a_userIP = (if userIP0 = Some ''unknown'' then Some [] else userIP0),
          a_clientIP = (if clientIP0 = Some ''unknown'' then Some [] else clientIP0),
          a_streamID = streamID0, a_net = net, a_sta = sta, a_loc = loc, a_cha = cha\<rparr>)"

text \<open>
  The two address tests at the head of the loop body: \<open>None\<close> is \<open>continue\<close>, otherwise
  the flags \<open>foundUserIP\<close> and \<open>foundClientIP\<close>. A criterion \<open>!= False\<close> is one that is
  present, the empty string included.
\<close>

definition ip_test :: "string option \<Rightarrow> string \<Rightarrow> bool option" where
  "ip_test criterion stored =
     (case criterion of
        None \<Rightarrow> Some False
      | Some ip \<Rightarrow> if ip = stored then Some True else None)"

definition ip_check :: "Args \<Rightarrow> ArclinkRequest \<Rightarrow> (bool \<times> bool) option" where
  "ip_check A request =
     (case ip_test (a_userIP A) (userIP request) of
        None \<Rightarrow> None
      | Some foundUserIP \<Rightarrow>
          (case ip_test (a_clientIP A) (clientIP request) of
             None \<Rightarrow> None
           | Some foundClientIP \<Rightarrow> Some (foundUserIP, foundClientIP)))"

text \<open>
  The three \<open>continue\<close> tests on the volume, the message and the status, applied to a
  status line and to the status of a request line.
\<close>

definition status_skipped :: "Args \<Rightarrow> ArclinkStatusLine \<Rightarrow> bool" where
  "status_skipped A st \<longleftrightarrow>
     (truthy (a_volume A) \<and> the (a_volume A) \<noteq> sl_volumeID st) \<or>
     (truthy (a_message A) \<and> py_replace ''%20'' '' '' (the (a_message A)) \<noteq> sl_message st) \<or>
     (truthy (a_onlyErrors A) \<and> sl_status st = ''OK'')"

definition sline_step ::
  "Args \<Rightarrow> ArclinkStatusLine list \<times> bool \<Rightarrow> ArclinkStatusLine \<Rightarrow> ArclinkStatusLine list \<times> bool" where
  "sline_step A acc sline =
     (if status_skipped A sline then acc else (fst acc @ [sline], True))"

definition line_skipped :: "Args \<Rightarrow> ArclinkRequestLine \<Rightarrow> bool" where
  "line_skipped A line \<longleftrightarrow>
     status_skipped A (rl_status line) \<or>
     (length (a_streamID A) > 0 \<and>
        ((a_net A \<noteq> [] \<and> a_net A \<noteq> networkCode (streamID line)) \<or>
         (a_sta A \<noteq> [] \<and> a_sta A \<noteq> stationCode (streamID line)) \<or>
         (a_loc A \<noteq> [] \<and> a_loc A \<noteq> locationCode (streamID line)) \<or>
         (a_cha A \<noteq> [] \<and> a_cha A \<noteq> channelCode (streamID line)))) \<or>
     (a_restricted A \<noteq> None \<and> the (a_restricted A) \<noteq> restricted line)"

record LineLoop =
  Xlines :: "ArclinkRequestLine list"
  foundLine :: bool
  lineCount :: int
  errorCount :: int
  tw :: int

definition line_step :: "Args \<Rightarrow> LineLoop \<Rightarrow> ArclinkRequestLine \<Rightarrow> LineLoop" where
  "line_step A acc line =
     (if line_skipped A line then acc
      else \<lparr>Xlines = Xlines acc @ [line], foundLine = True, lineCount = lineCount acc + 1,
            errorCount = (if sl_status (rl_status line) \<noteq> ''OK'' then errorCount acc + 1
                          else errorCount acc),
            tw = (if rl_start line \<le> rl_end line then tw acc + (rl_end line - rl_start line)
                  else tw acc)\<rparr>)"

text \<open>
  The summary built after the loop over the request lines. \<open>tw.seconds() / lineCount\<close> is
  Python 3's true division, modelled as a rational.
\<close>

definition line_summary :: "LineLoop \<Rightarrow> ArclinkRequestSummary" where
  "line_summary acc =
     (let averageTimeWindow0 = (of_int (tw acc) :: rat);
          averageTimeWindow1 = (if lineCount acc > 0 then of_int (tw acc) / of_int (lineCount acc)
                                else averageTimeWindow0);
          averageTimeWindow2 = (if averageTimeWindow1 > 2 ^ 32 then - 1 else averageTimeWindow1)
      in \<lparr>okLineCount = lineCount acc - errorCount acc, totalLineCount = lineCount acc,
          averageTimeWindow = averageTimeWindow2\<rparr>)"

text \<open>
  The body of the selection loop for one request: \<open>None\<close> when the request is left out
  (a \<open>continue\<close>, or no flag set at the end), otherwise the copy \<open>Xrequest\<close> that is passed to
  the callback or appended to the selection. The copy starts without sub-lines and gets
  the lines that are not skipped.
\<close>

definition select_request :: "DatabaseQuery \<Rightarrow> Args \<Rightarrow> ArclinkRequest \<Rightarrow> ArclinkRequest option" where
  "select_request db A request =
     (let reqErrors = (case summary request of
                         None \<Rightarrow> 0
                       | Some sm \<Rightarrow> totalLineCount sm - okLineCount sm)
      in case ip_check A request of
           None \<Rightarrow> None
         | Some (foundUserIP, foundClientIP) \<Rightarrow>
             (let foundRequest0 = (truthy (a_onlyErrors A) \<and> req_status request \<noteq> ''END'');
                  Xrequest = request\<lparr>arclinkStatusLines := [], arclinkRequestLines := []\<rparr>;
                  request1 = loadArclinkStatusLines db request
              in if truthy (a_volume A) \<and> length (arclinkStatusLines request1) = 0 then None
                 else
                   (let (Xslines, foundVolume) =
                          foldl (sline_step A) ([], False) (arclinkStatusLines request1);
                        Xrequest1 = Xrequest\<lparr>arclinkStatusLines := Xslines\<rparr>;
                        (Xrequest2, foundLine1) =
                          (if truthy (a_lines A) \<or> a_restricted A \<noteq> None
                           then (let request2 = loadArclinkRequestLines db request1;
                                     acc = foldl (line_step A)
                                             \<lparr>Xlines = [], foundLine = False, lineCount = 0,
                                              errorCount = 0, tw = 0\<rparr>
                                             (arclinkRequestLines request2)
                                 in (Xrequest1\<lparr>arclinkRequestLines := Xlines acc,
                                                summary := Some (line_summary acc)\<rparr>,
                                     foundLine acc))
                           else (Xrequest1, False));
                        foundRequest1 =
                          (if \<not> truthy (a_lines A) \<and> \<not> truthy (a_volume A) \<and>
                              truthy (a_onlyErrors A) \<and> reqErrors > 0
                           then True else foundRequest0);
                        foundRequest2 =
                          (if \<not> truthy (a_message A) \<and> \<not> truthy (a_lines A) \<and>
                              \<not> truthy (a_onlyErrors A) \<and> \<not> truthy (a_volume A) \<and>
                              (foundUserIP \<or> foundClientIP)
                           then True else foundRequest1)
                    in if foundRequest2 \<or> foundLine1 \<or> foundVolume then Some Xrequest2 else None)))"

text \<open>
  \<open>loadRequests(session, cb)\<close> on the objects the database query yields. Requests without
  a summary are ignored. Without any criterion and without a callback the requests are
  returned as they are; otherwise each accepted copy is passed to the callback, or the list
  of the accepted copies is returned. The callback is a function on its own state that may
  raise.
\<close>

datatype 's loaded = Returned "ArclinkRequest list" | Called 's

definition loadRequests ::
  "DatabaseQuery \<Rightarrow> (string \<rightharpoonup> string) \<Rightarrow> (('s \<Rightarrow> ArclinkRequest \<Rightarrow> error + 's) \<times> 's) option \<Rightarrow>
   ArclinkRequest list \<Rightarrow> error + 's loaded" where
  "loadRequests db args cb query =
     (let requests0 = filter (\<lambda>request. summary request \<noteq> None) query;
          restricted0 = (case args ''restricted'' of
                           None \<Rightarrow> False | Some s \<Rightarrow> s = ''no'' \<or> s = ''yes'')
      in if \<not> (restricted0 \<or> truthy (args ''onlyErrors'') \<or> truthy (args ''lines'') \<or>
                truthy (args ''volume'') \<or> truthy (args ''message'') \<or> truthy (args ''userIP'') \<or>
                truthy (args ''clientIP'') \<or> cb \<noteq> None)
         then Inr (Returned requests0)
         else (let selection = List.map_filter (select_request db (selection_args args)) requests0
               in case cb of
                    None \<Rightarrow> Inr (Returned selection)
                  | Some (f, st) \<Rightarrow> map_sum id Called (for_each f st selection)))"


section \<open>printRequestSummary\<close>

text \<open>
  The dictionaries \<open>printRequestSummary\<close> fills before it writes the report: \<open>users\<close>,
  \<open>rtypes\<close>, \<open>streams\<close>, \<open>errors\<close>, \<open>messages\<close>, \<open>total\<close>, \<open>volumes\<close>, \<open>userIPs\<close>,
  \<open>clientIPs\<close>, \<open>nets\<close>, and the span \<open>timeMin\<close>, \<open>timeMax\<close>. Sizes are the integers of
  the status lines.
\<close>

record Summary =
  s_users :: "string \<rightharpoonup> int \<times> int \<times> int \<times> int"
  s_rtypes :: "string \<rightharpoonup> int \<times> int \<times> int"
  s_streams :: "string \<rightharpoonup> int \<times> int \<times> int \<times> int \<times> int"
  s_errors :: "string \<rightharpoonup> int"
  s_messages :: "string \<rightharpoonup> int"
  s_total :: int
  s_volumes :: "string \<rightharpoonup> int \<times> int \<times> int"
  s_userIPs :: "string \<rightharpoonup> int \<times> int \<times> int"
  s_clientIPs :: "string \<rightharpoonup> int \<times> int \<times> int"
  s_nets :: "string \<rightharpoonup> int \<times> int \<times> int \<times> int \<times> int"
  s_timeMin :: Time
  s_timeMax :: Time

text \<open>\<open>d.setdefault(k, 0); d[k] += n\<close>.\<close>

definition count_up :: "(string \<rightharpoonup> int) \<Rightarrow> string \<Rightarrow> int \<Rightarrow> (string \<rightharpoonup> int)" where
  "count_up d k n = (case setdefault d k 0 of (d', c) \<Rightarrow> d'(k \<mapsto> c + n))"

text \<open>
  The body of the loop over the status lines of one request. The state is the summary and
  the dictionary \<open>volume_error\<close> of the request.
\<close>

definition summary_sline ::
  "string \<Rightarrow> Summary \<times> (string \<rightharpoonup> bool) \<Rightarrow> ArclinkStatusLine \<Rightarrow> Summary \<times> (string \<rightharpoonup> bool)" where
  "summary_sline user st sline =
     (case st of (S, volume_error) \<Rightarrow>
        (let err = (if sl_status sline = ''OK'' then 0 else 1);
             volume = sl_volumeID sline;
             (volume_error1, sz) =
               (if sl_status sline = ''ERROR'' then (volume_error(volume \<mapsto> True), 0)
                else (volume_error(volume \<mapsto> False), sl_size sline));
             volumes1 = (case setdefault (s_volumes S) volume (0, 0, 0) of
                           (d, (count, error, s)) \<Rightarrow> d(volume \<mapsto> (count + 1, error + err, s + sz)));
             users1 = (case setdefault (s_users S) user (0, 0, 0, 0) of
                         (d, (count, lns, error, s)) \<Rightarrow> d(user \<mapsto> (count, lns, error, s + sz)));
             messages1 = count_up (s_messages S) (sl_message sline) 1
         in (S\<lparr>s_volumes := volumes1, s_users := users1, s_messages := messages1\<rparr>,
             volume_error1)))"

text \<open>
  The size a request line counts for: nothing when its status is \<open>ERROR\<close> or \<open>NODATA\<close>;
  otherwise nothing when \<open>volume_error\<close> holds \<open>True\<close> for its volume, and its own size when
  \<open>volume_error\<close> holds \<open>False\<close> or has no such key (the \<open>KeyError\<close> branch).
\<close>

definition line_size :: "(string \<rightharpoonup> bool) \<Rightarrow> ArclinkRequestLine \<Rightarrow> int" where
  "line_size volume_error line =
     (if sl_status (rl_status line) = ''ERROR'' then 0
      else if sl_status (rl_status line) = ''NODATA'' then 0
      else (case volume_error (sl_volumeID (rl_status line)) of
              Some flag \<Rightarrow> if flag then 0 else sl_size (rl_status line)
            | None \<Rightarrow> sl_size (rl_status line)))"

text \<open>
  The key of a request line in \<open>netcounts\<close>. \<open>netcode[0]\<close> raises \<open>IndexError\<close> on an empty
  network code.
\<close>

definition net_key :: "ArclinkRequestLine \<Rightarrow> error + string" where
  "net_key line =
     (let netcode = networkCode (streamID line)
      in case netcode of
           [] \<Rightarrow> Inl IndexError
         | c # cs \<Rightarrow> if c \<in> set ''XYZ'' then Inr (netcode @ ''/'' @ toString (rl_start line) ''%Y'')
                     else Inr netcode)"

text \<open>
  The body of the loop over the request lines of one request. The state is the summary and
  the dictionary \<open>netcounts\<close> of the request.
\<close>

definition summary_line ::
  "(string \<rightharpoonup> bool) \<Rightarrow> Summary \<times> (string \<rightharpoonup> int \<times> int \<times> int \<times> int) \<Rightarrow> ArclinkRequestLine \<Rightarrow>
   error + Summary \<times> (string \<rightharpoonup> int \<times> int \<times> int \<times> int)" where
  "summary_line volume_error st line =
     (case st of (S, netcounts) \<Rightarrow>
        (let stream = networkCode (streamID line) @ ''.'' @ stationCode (streamID line);
             timeWindow0 = rl_end line - rl_start line;
             timeWindow = (if timeWindow0 < 0 then 0 else timeWindow0);
             error = (if sl_status (rl_status line) = ''ERROR'' then 1 else 0);
             nodata = (if sl_status (rl_status line) = ''ERROR'' then 0
                       else if sl_status (rl_status line) = ''NODATA'' then 1 else 0);
             sz = line_size volume_error line;
             streams1 = (case setdefault (s_streams S) stream (0, 0, 0, 0, 0) of
                           (d, (lns, nodataCount, errorCount', s, t)) \<Rightarrow>
                             d(stream \<mapsto> (lns + 1, nodataCount + nodata, errorCount' + error, s + sz,
                                            t + timeWindow)));
             messages1 = count_up (s_messages S) (sl_message (rl_status line)) 1
         in case net_key line of
              Inl err \<Rightarrow> Inl err
            | Inr netcode \<Rightarrow>
                Inr (S\<lparr>s_streams := streams1, s_messages := messages1\<rparr>,
                     (case setdefault netcounts netcode (0, 0, 0, 0) of
                        (d, (lns, nodataCount, errorCount', s)) \<Rightarrow>
                          d(netcode \<mapsto> (lns + 1, nodataCount + nodata, errorCount' + error, s + sz))))))"

text \<open>
  \<open>for netcode, counts in netcounts.items()\<close>: every key of \<open>netcounts\<close> is visited once and
  changes only its own entry of \<open>nets\<close>, so the loop is the pointwise update.
\<close>

definition add_netcounts ::
  "(string \<rightharpoonup> int \<times> int \<times> int \<times> int \<times> int) \<Rightarrow> (string \<rightharpoonup> int \<times> int \<times> int \<times> int) \<Rightarrow>
   (string \<rightharpoonup> int \<times> int \<times> int \<times> int \<times> int)" where
  "add_netcounts nets netcounts =
     (\<lambda>netcode.
        case netcounts netcode of
          None \<Rightarrow> nets netcode
        | Some (lineCount', nodataCount, errorCount', sz) \<Rightarrow>
            (case (case nets netcode of None \<Rightarrow> (0, 0, 0, 0, 0) | Some x \<Rightarrow> x) of
               (count, lns, nodata, error, s) \<Rightarrow>
                 Some (count + 1, lns + lineCount', nodata + nodataCount, error + errorCount', s + sz)))"

text \<open>An empty address is counted under \<open>unknown\<close>.\<close>

definition ip_category :: "string \<Rightarrow> string" where
  "ip_category ip = (if length ip = 0 then ''unknown'' else ip)"

definition add3 ::
  "(string \<rightharpoonup> int \<times> int \<times> int) \<Rightarrow> string \<Rightarrow> int \<Rightarrow> int \<Rightarrow> (string \<rightharpoonup> int \<times> int \<times> int)" where
  "add3 d k lineCount' errorCount' =
     (case setdefault d k (0, 0, 0) of
        (d', (count, lns, error)) \<Rightarrow> d'(k \<mapsto> (count + 1, lns + lineCount', error + errorCount')))"

text \<open>\<open>s.upper()\<close> on ASCII.\<close>

definition py_upper :: "string \<Rightarrow> string" where
  "py_upper s =
     map (\<lambda>c. if CHR ''a'' \<le> c \<and> c \<le> CHR ''z'' then char_of (of_char c - (32::nat)) else c) s"

text \<open>
  The body of the loop over the requests. \<open>export\<close> is whether \<open>self.export\<close> is a
  non-empty list. \<open>request.summary()\<close> raises on a request without summary.
\<close>

definition summary_request ::
  "DatabaseQuery \<Rightarrow> bool \<Rightarrow> Summary \<Rightarrow> ArclinkRequest \<Rightarrow> error + Summary" where
  "summary_request db export S request0 =
     (let user = userID request0;
          request1 = (if length (arclinkStatusLines request0) = 0
                      then loadArclinkStatusLines db request0 else request0);
          (S1, volume_error) =
             foldl (summary_sline user) (S, Map.empty) (arclinkStatusLines request1);
          request2 = (if export \<and> py_upper (req_type request1) = ''WAVEFORM'' \<and>
                         length (arclinkRequestLines request1) = 0
                      then loadArclinkRequestLines db request1 else request1)
      in case for_each (summary_line volume_error) (S1, Map.empty) (arclinkRequestLines request2) of
           Inl err \<Rightarrow> Inl err
         | Inr (S2, netcounts) \<Rightarrow>
             (case summary request2 of
                None \<Rightarrow> Inl ValueError
              | Some sm \<Rightarrow>
                  (let S3 = S2\<lparr>s_nets := add_netcounts (s_nets S2) netcounts\<rparr>;
                       lineCount' = totalLineCount sm;
                       errorCount' = totalLineCount sm - okLineCount sm;
                       users1 = (case setdefault (s_users S3) user (0, 0, 0, 0) of
                                   (d, (count, lns, error, sz)) \<Rightarrow>
                                     d(user \<mapsto> (count + 1, lns + lineCount', error + errorCount', sz)));
                       S4 = S3\<lparr>s_users := users1,
                               s_userIPs := add3 (s_userIPs S3) (ip_category (userIP request2))
                                              lineCount' errorCount',
                               s_clientIPs := add3 (s_clientIPs S3) (ip_category (clientIP request2))
                                                lineCount' errorCount',
                               s_rtypes := add3 (s_rtypes S3) (req_type request2) lineCount' errorCount'\<rparr>;
                       S5 = (if errorCount' > 0
                             then S4\<lparr>s_errors := count_up (s_errors S4) (requestID request2) errorCount'\<rparr>
                             else S4);
                       S6 = S5\<lparr>s_total := s_total S5 + lineCount'\<rparr>;
                       S7 = (if created request2 < s_timeMin S6
                             then S6\<lparr>s_timeMin := created request2\<rparr> else S6)
                   in Inr (if created request2 > s_timeMax S7
                           then S7\<lparr>s_timeMax := created request2\<rparr> else S7))))"

text \<open>
  The dictionaries of \<open>printRequestSummary\<close> after its loop, for a report from
  \<open>startTime\<close> to \<open>endTime\<close>.
\<close>

definition Summary_new :: "Time \<Rightarrow> Time \<Rightarrow> Summary" where
  "Summary_new startTime endTime =
     \<lparr>s_users = Map.empty, s_rtypes = Map.empty, s_streams = Map.empty, s_errors = Map.empty,
      s_messages = Map.empty, s_total = 0, s_volumes = Map.empty, s_userIPs = Map.empty,
      s_clientIPs = Map.empty, s_nets = Map.empty, s_timeMin = endTime, s_timeMax = startTime\<rparr>"

definition printRequestSummary ::
  "DatabaseQuery \<Rightarrow> bool \<Rightarrow> Time \<Rightarrow> Time \<Rightarrow> ArclinkRequest list \<Rightarrow> error + Summary" where
  "printRequestSummary db export startTime endTime rs =
     for_each (summary_request db export) (Summary_new startTime endTime) rs"


section \<open>Statements about the summary\<close>

text \<open>
  The bytes counted for a volume and for a station, the sub-lines \<open>printRequestSummary\<close>
  reads for a request, and the value of \<open>volume_error\<close> after the loop over the status
  lines: the flag of the last status line of the volume.
\<close>

definition volume_bytes :: "Summary \<Rightarrow> string \<Rightarrow> int" where
  "volume_bytes S volume = (case s_volumes S volume of None \<Rightarrow> 0 | Some (count, error, s) \<Rightarrow> s)"

definition station_bytes :: "Summary \<Rightarrow> string \<Rightarrow> int" where
  "station_bytes S stream =
     (case s_streams S stream of None \<Rightarrow> 0 | Some (lns, nodataCount, errorCount', s, t) \<Rightarrow> s)"

definition status_lines_read :: "DatabaseQuery \<Rightarrow> ArclinkRequest \<Rightarrow> ArclinkStatusLine list" where
  "status_lines_read db request =
     arclinkStatusLines (if length (arclinkStatusLines request) = 0
                         then loadArclinkStatusLines db request else request)"

definition request_lines_read :: "DatabaseQuery \<Rightarrow> bool \<Rightarrow> ArclinkRequest \<Rightarrow> ArclinkRequestLine list" where
  "request_lines_read db export request =
     (let request1 = (if length (arclinkStatusLines request) = 0
                      then loadArclinkStatusLines db request else request)
      in arclinkRequestLines
           (if export \<and> py_upper (req_type request1) = ''WAVEFORM'' \<and>
               length (arclinkRequestLines request1) = 0
            then loadArclinkRequestLines db request1 else request1))"

definition volume_flags :: "ArclinkStatusLine list \<Rightarrow> string \<rightharpoonup> bool" where
  "volume_flags slines volume =
     (let xs = filter (\<lambda>sline. sl_volumeID sline = volume) slines
      in if xs = [] then None else Some (sl_status (last xs) = ''ERROR''))"

definition stream_of :: "ArclinkRequestLine \<Rightarrow> string" where
  "stream_of line = networkCode (streamID line) @ ''.'' @ stationCode (streamID line)"

text \<open>
  A request with one request line of status \<open>NODATA\<close> that records 5 bytes for a volume no
  status line names, and the two requests of the scenario for the networks: request 1 with
  one line of network \<open>IU\<close> and no error line, request 2 with two lines of network \<open>XX\<close>
  starting on 2021-02-01, both in error.
\<close>

definition nodata_request :: ArclinkRequest where
  "nodata_request =
     \<lparr>requestID = ''4'', userID = ''user@example.org'', userIP = ''192.0.2.1'', clientID = ''c'',
      clientIP = ''198.51.100.7'', req_type = ''WAVEFORM'', created = 1585699200,
      req_status = ''END'', req_message = [], label = [], header = [],
      summary = Some \<lparr>okLineCount = 1, totalLineCount = 1, averageTimeWindow = 60\<rparr>,
      arclinkStatusLines = [],
      arclinkRequestLines =
        [\<lparr>streamID = \<lparr>networkCode = ''GE'', stationCode = ''APE'', locationCode = [],
                       channelCode = ''BHZ''\<rparr>,
          rl_start = 1585699200, rl_end = 1585699260, restricted = False,
          rl_status = \<lparr>sl_volumeID = ''v9'', sl_status = ''NODATA'', sl_size = 5,
                        sl_message = []\<rparr>\<rparr>]\<rparr>"

definition iu_request :: ArclinkRequest where
  "iu_request =
     \<lparr>requestID = ''1'', userID = ''a@example.org'', userIP = ''192.0.2.1'', clientID = ''c'',
      clientIP = ''198.51.100.7'', req_type = ''WAVEFORM'', created = 1612137600,
      req_status = ''END'', req_message = [], label = [], header = [],
      summary = Some \<lparr>okLineCount = 1, totalLineCount = 1, averageTimeWindow = 60\<rparr>,
      arclinkStatusLines = [],
      arclinkRequestLines =
        [\<lparr>streamID = \<lparr>networkCode = ''IU'', stationCode = ''ANMO'', locationCode = ''00'',
                       channelCode = ''BHZ''\<rparr>,
          rl_start = 1612137600, rl_end = 1612137660, restricted = False,
          rl_status = \<lparr>sl_volumeID = ''v1'', sl_status = ''OK'', sl_size = 512,
                        sl_message = []\<rparr>\<rparr>]\<rparr>"

definition xx_request :: ArclinkRequest where
  "xx_request =
     \<lparr>requestID = ''2'', userID = ''b@example.org'', userIP = ''192.0.2.2'', clientID = ''c'',
      clientIP = ''198.51.100.7'', req_type = ''WAVEFORM'', created = 1612137600,
      req_status = ''END'', req_message = [], label = [], header = [],
      summary = Some \<lparr>okLineCount = 0, totalLineCount = 2, averageTimeWindow = 60\<rparr>,
      arclinkStatusLines = [],
      arclinkRequestLines =
        [\<lparr>streamID = \<lparr>networkCode = ''XX'', stationCode = ''S1'', locationCode = [],
                       channelCode = ''HHZ''\<rparr>,
          rl_start = 1612137600, rl_end = 1612137660, restricted = False,
          rl_status = \<lparr>sl_volumeID = ''v2'', sl_status = ''ERROR'', sl_size = 0,
                        sl_message = ''no data''\<rparr>\<rparr>,
         \<lparr>streamID = \<lparr>networkCode = ''XX'', stationCode = ''S2'', locationCode = [],
                       channelCode = ''HHZ''\<rparr>,
          rl_start = 1612137600, rl_end = 1612137660, restricted = False,
          rl_status = \<lparr>sl_volumeID = ''v2'', sl_status = ''ERROR'', sl_size = 0,
                        sl_message = ''no data''\<rparr>\<rparr>]\<rparr>"


text \<open>
  A request whose volume \<open>v1\<close> failed with 100 bytes recorded, and whose request line, of
  status \<open>OK\<close>, records 100 bytes for that volume.
\<close>

definition error_volume_request :: ArclinkRequest where
  "error_volume_request =
     \<lparr>requestID = ''5'', userID = ''user@example.org'', userIP = ''192.0.2.1'', clientID = ''c'',
      clientIP = ''198.51.100.7'', req_type = ''WAVEFORM'', created = 1585699200,
      req_status = ''END'', req_message = [], label = [], header = [],
      summary = Some \<lparr>okLineCount = 1, totalLineCount = 1, averageTimeWindow = 60\<rparr>,
      arclinkStatusLines =
        [\<lparr>sl_volumeID = ''v1'', sl_status = ''ERROR'', sl_size = 100, sl_message = ''failed''\<rparr>],
      arclinkRequestLines =
        [\<lparr>streamID = \<lparr>networkCode = ''GE'', stationCode = ''APE'', locationCode = [],
                       channelCode = ''BHZ''\<rparr>,
          rl_start = 1585699200, rl_end = 1585699260, restricted = False,
          rl_status = \<lparr>sl_volumeID = ''v1'', sl_status = ''OK'', sl_size = 100,
                        sl_message = []\<rparr>\<rparr>]\<rparr>"


text \<open>A request with one request line whose network code is the empty string.\<close>

definition empty_net_request :: ArclinkRequest where
  "empty_net_request =
     \<lparr>requestID = ''6'', userID = ''user@example.org'', userIP = ''192.0.2.1'', clientID = ''c'',
      clientIP = ''198.51.100.7'', req_type = ''WAVEFORM'', created = 1585699200,
      req_status = ''END'', req_message = [], label = [], header = [],
      summary = Some \<lparr>okLineCount = 1, totalLineCount = 1, averageTimeWindow = 60\<rparr>,
      arclinkStatusLines = [],
      arclinkRequestLines =
        [\<lparr>streamID = \<lparr>networkCode = [], stationCode = ''APE'', locationCode = [],
                       channelCode = ''BHZ''\<rparr>,
          rl_start = 1585699200, rl_end = 1585699260, restricted = False,
          rl_status = \<lparr>sl_volumeID = ''v1'', sl_status = ''OK'', sl_size = 100,
                        sl_message = []\<rparr>\<rparr>]\<rparr>"


section \<open>Statements about the selection\<close>

text \<open>
  The flags of the loop body as functions of the request: the number of error lines of the
  summary, \<open>foundRequest\<close> as first assigned, \<open>foundVolume\<close> and \<open>foundLine\<close>.
\<close>

definition reqErrors :: "ArclinkRequest \<Rightarrow> int" where
  "reqErrors request =
     (case summary request of None \<Rightarrow> 0 | Some sm \<Rightarrow> totalLineCount sm - okLineCount sm)"







text \<open>
  A database without sub-lines and an unfinished request without error lines; a database
  with one request line whose time window is \<open>2 ^ 32\<close> seconds.
\<close>

definition empty_db :: DatabaseQuery where
  "empty_db = \<lparr>db_statusLines = (\<lambda>request. []), db_requestLines = (\<lambda>request. [])\<rparr>"





section \<open>Statements about a counter\<close>

text \<open>
  The metrics one call adds to a bucket of each dimension: one request, its lines, its
  error lines and the size of its volumes in units of \<open>1e6\<close> bytes.
\<close>

definition request_metrics :: "ArclinkRequestSummary \<Rightarrow> ArclinkRequest \<Rightarrow> metrics" where
  "request_metrics sm request =
     (1, totalLineCount sm, totalLineCount sm - okLineCount sm,
      of_int (foldl (\<lambda>v sline. v + sl_size sline) 0 (arclinkStatusLines request)) / 1000000)"

definition metrics_add :: "metrics \<Rightarrow> metrics \<Rightarrow> metrics" where
  "metrics_add a b =
     (case a of (r1, l1, e1, s1) \<Rightarrow> case b of (r2, l2, e2, s2) \<Rightarrow> (r1 + r2, l1 + l2, e1 + e2, s1 + s2))"





text \<open>A second request, created on Thursday 1970-01-01, with two delivered volumes.\<close>

definition example_request2 :: ArclinkRequest where
  "example_request2 =
     \<lparr>requestID = ''2'', userID = ''other@example.org'', userIP = [], clientID = ''c'',
      clientIP = ''198.51.100.7'', req_type = ''WAVEFORM'', created = 0, req_status = ''END'',
      req_message = [], label = [], header = [],
      summary = Some \<lparr>okLineCount = 5, totalLineCount = 5, averageTimeWindow = 3600\<rparr>,
      arclinkStatusLines =
        [\<lparr>sl_volumeID = ''v1'', sl_status = ''OK'', sl_size = 1500000, sl_message = []\<rparr>,
         \<lparr>sl_volumeID = ''v2'', sl_status = ''OK'', sl_size = 500000, sl_message = []\<rparr>],
      arclinkRequestLines = []\<rparr>"


section \<open>Formatting numbers and times\<close>

lemma digit_val_digit: "n < 10 \<Longrightarrow> digit_val (digit n) = n"
proof -
  assume "n < 10"
  then have "n \<in> {0,1,2,3,4,5,6,7,8,9}" by auto
  then show ?thesis by (auto simp: digit_val_def digit_def)
qed

lemma digit_not_minus: "n < 10 \<Longrightarrow> digit n \<noteq> CHR ''-''"
proof -
  assume "n < 10"
  then have "n \<in> {0,1,2,3,4,5,6,7,8,9}" by auto
  then show ?thesis by (auto simp: digit_def)
qed

lemma dec_small: "n < 10 \<Longrightarrow> dec n = [digit n]"
  by (subst dec.simps) simp

lemma dec_large: "\<not> n < 10 \<Longrightarrow> dec n = dec (n div 10) @ [digit (n mod 10)]"
  by (subst dec.simps) simp

lemma dec_nonempty: "dec n \<noteq> []"
  by (subst dec.simps) simp

lemma undec_snoc: "undec (s @ [c]) = 10 * undec s + digit_val c"
  by (simp add: undec_def)

lemma undec_dec: "undec (dec n) = n"
proof (induction n rule: dec.induct)
  case (1 n)
  show ?case
  proof (cases "n < 10")
    case True
    then show ?thesis by (simp add: dec_small undec_def digit_val_digit)
  next
    case False
    then show ?thesis using 1 by (simp add: dec_large undec_snoc digit_val_digit)
  qed
qed

lemma undec_zeros: "undec (replicate k (CHR ''0'') @ s) = undec s"
proof -
  have "foldl (\<lambda>a c. 10 * a + digit_val c) 0 (replicate k (CHR ''0'')) = 0"
    by (induction k) (simp_all add: digit_val_def)
  then show ?thesis by (simp add: undec_def)
qed

lemma undec_zfill: "undec (zfill w (dec n)) = n"
  by (simp add: zfill_def undec_zeros undec_dec)

lemma hd_dec: "hd (dec n) \<noteq> CHR ''-''"
proof (induction n rule: dec.induct)
  case (1 n)
  show ?case
  proof (cases "n < 10")
    case True
    then show ?thesis by (simp add: dec_small digit_not_minus)
  next
    case False
    then show ?thesis using 1 by (simp add: dec_large dec_nonempty)
  qed
qed

lemma hd_zfill_dec: "hd (zfill w (dec n)) \<noteq> CHR ''-''"
  by (cases "w - length (dec n)") (simp_all add: zfill_def hd_dec)

lemma zfill_dec_nonempty: "zfill w (dec n) \<noteq> []"
  by (simp add: zfill_def dec_nonempty)

text \<open>Reading a formatted number back gives the number: the format is injective.\<close>

lemma py_int_fmt_d: "py_int (fmt_d w n) = n"
proof (cases "n < 0")
  case True
  then show ?thesis by (simp add: py_int_def fmt_d_def undec_zfill)
next
  case False
  obtain c r where cr: "zfill w (dec (nat n)) = c # r"
    using zfill_dec_nonempty by (cases "zfill w (dec (nat n))") auto
  have "c \<noteq> CHR ''-''" using hd_zfill_dec [of w "nat n"] cr by simp
  moreover have "undec (c # r) = nat n" using undec_zfill [of w "nat n"] cr by simp
  ultimately show ?thesis using False cr by (simp add: py_int_def fmt_d_def)
qed

lemma length_dec_2: "n < 100 \<Longrightarrow> length (dec n) \<le> 2"
proof (cases "n < 10")
  case True
  then show ?thesis by (simp add: dec_small)
next
  case False
  assume "n < 100"
  then have "n div 10 < 10" by simp
  then show ?thesis using False by (simp add: dec_large dec_small)
qed

lemma length_fmt_d_2: "0 \<le> n \<Longrightarrow> n < 100 \<Longrightarrow> length (fmt_d 2 n) = 2"
  using length_dec_2 [of "nat n"] by (simp add: fmt_d_def zfill_def)

lemma toString_Ymd: "toString t ''%Y-%m-%d'' =
   fmt_d 4 (c_year (civil_from_days (t div 86400))) @ ''-'' @
   fmt_d 2 (c_month (civil_from_days (t div 86400))) @ ''-'' @
   fmt_d 2 (c_day (civil_from_days (t div 86400)))"
  by (simp add: strftime_field_def)

lemma toString_Ym: "toString t ''%Y-%m'' =
   fmt_d 4 (c_year (civil_from_days (t div 86400))) @ ''-'' @
   fmt_d 2 (c_month (civil_from_days (t div 86400)))"
  by (simp add: strftime_field_def)

lemma toString_H: "toString t ''%H'' = fmt_d 2 (t mod 86400 div 3600)"
  by (simp add: strftime_field_def)

lemma toString_w: "toString t ''%w'' = fmt_d 1 ((t div 86400 + 4) mod 7)"
  by (simp add: strftime_field_def)

lemma toString_Y: "toString t ''%Y'' = fmt_d 4 (c_year (civil_from_days (t div 86400)))"
  by (simp add: strftime_field_def)

declare toString.simps [simp del]

lemma weekday_index: "nat (py_int (toString t ''%w'')) < 7"
proof -
  have "0 \<le> (t div 86400 + 4) mod 7 \<and> (t div 86400 + 4) mod 7 < 7" by simp
  then show ?thesis unfolding toString_w py_int_fmt_d by linarith
qed

section \<open>The dictionaries of a counter\<close>

lemma fst_setdefault: "fst (setdefault m k v) = (if k \<in> dom m then m else m(k \<mapsto> v))"
  by (auto simp: setdefault_def split: option.splits)

lemma dom_setdefault: "dom (fst (setdefault m k v)) = insert k (dom m)"
  by (auto simp: fst_setdefault)

lemma preset_day_fields:
  "daily (preset_day c t) = fst (setdefault (daily c) (toString t ''%Y-%m-%d'') zero_metrics)"
  "monthly (preset_day c t) = fst (setdefault (monthly c) (toString t ''%Y-%m'') zero_metrics)"
  "weekdaily (preset_day c t) =
     fst (setdefault (weekdaily c) (weekdays c ! nat (py_int (toString t ''%w''))) zero_metrics)"
  "hourly (preset_day c t) = hourly c"
  "weekdays (preset_day c t) = weekdays c"
  by (simp_all add: preset_day_def Let_def)

lemma preset_keys_weekdays: "weekdays (preset_keys c t e) = weekdays c"
  by (induction c t e rule: preset_keys.induct) (subst preset_keys.simps, simp add: preset_day_fields)

lemma preset_keys_hourly: "hourly (preset_keys c t e) = hourly c"
  by (induction c t e rule: preset_keys.induct) (subst preset_keys.simps, simp add: preset_day_fields)

lemma preset_keys_weekdaily_dom:
  "length (weekdays c) = 7 \<Longrightarrow> dom (weekdaily c) \<subseteq> set (weekdays c) \<Longrightarrow>
   dom (weekdaily (preset_keys c t e)) \<subseteq> set (weekdays c)"
proof (induction c t e rule: preset_keys.induct)
  case (1 c t e)
  show ?case
  proof (cases "t < e")
    case True
    have "dom (weekdaily (preset_day c t)) \<subseteq> set (weekdays c)"
      using "1.prems" weekday_index [of t] by (simp add: preset_day_fields dom_setdefault)
    then have "dom (weekdaily (preset_keys (preset_day c t) (t + 86400) e)) \<subseteq> set (weekdays c)"
      using "1.IH" [OF True] "1.prems" by (simp add: preset_day_fields)
    then show ?thesis using True by (subst preset_keys.simps) simp
  next
    case False
    then show ?thesis using "1.prems" by (subst preset_keys.simps) simp
  qed
qed

lemma fold_preset_hour_other:
  "weekdaily (fold preset_hour hs c) = weekdaily c \<and> weekdays (fold preset_hour hs c) = weekdays c
   \<and> daily (fold preset_hour hs c) = daily c \<and> monthly (fold preset_hour hs c) = monthly c"
  by (induction hs arbitrary: c) (simp_all add: preset_hour_def)

lemma Counter_init_weekdays: "weekdays (Counter_init s e) = weekdays Counter_new"
  by (simp add: Counter_init_def fold_preset_hour_other preset_keys_weekdays split: option.splits)

lemma Counter_init_weekdaily_dom:
  "dom (weekdaily (Counter_init s e)) \<subseteq> set (weekdays Counter_new)"
proof -
  have "dom (weekdaily (preset_keys Counter_new a b)) \<subseteq> set (weekdays Counter_new)" for a b
    by (rule preset_keys_weekdaily_dom) (simp_all add: Counter_new_def)
  then show ?thesis
    by (simp add: Counter_init_def fold_preset_hour_other split: option.splits)
       (simp add: Counter_new_def)
qed

lemma dom_add_bucket: "dom (add_bucket d k l e v) = insert k (dom d)"
  by (auto simp: add_bucket_def setdefault_def split: option.splits prod.splits)

lemma Counter_call_fields:
  assumes "Counter_call c r = Inr c'" and "summary r = Some sm"
  defines "l \<equiv> totalLineCount sm" and "e \<equiv> totalLineCount sm - okLineCount sm"
    and "v \<equiv> of_int (foldl (\<lambda>v sline. v + sl_size sline) 0 (arclinkStatusLines r)) / 1000000"
  shows "hourly c' = add_bucket (hourly c) (toString (created r) ''%H'') l e v"
    and "daily c' = add_bucket (daily c) (toString (created r) ''%Y-%m-%d'') l e v"
    and "monthly c' = add_bucket (monthly c) (toString (created r) ''%Y-%m'') l e v"
    and "weekdaily c' =
           add_bucket (weekdaily c) (weekdays c ! nat (py_int (toString (created r) ''%w''))) l e v"
    and "weekdays c' = weekdays c"
  using assms by (auto simp: Counter_call_def Let_def)

lemma Counter_call_summary: "Counter_call c r = Inr c' \<Longrightarrow> \<exists>sm. summary r = Some sm"
  by (cases "summary r") (simp_all add: Counter_call_def)


section \<open>Weekday keys\<close>

lemma weekdays_sorted_distinct: "sorted (weekdays Counter_new) \<and> distinct (weekdays Counter_new)"
  by (simp add: Counter_new_def)

lemma sorted_weekday_keys:
  assumes "K \<subseteq> set (weekdays Counter_new)"
  shows "sorted_list_of_set K = filter (\<lambda>k. k \<in> K) (weekdays Counter_new)"
proof -
  let ?l = "filter (\<lambda>k. k \<in> K) (weekdays Counter_new)"
  have "sorted ?l" using weekdays_sorted_distinct sorted_wrt_filter by blast
  moreover have "distinct ?l" using weekdays_sorted_distinct by simp
  moreover have "set ?l = K" using assms by auto
  ultimately show ?thesis using sorted_list_of_set.idem_if_sorted_distinct by metis
qed

lemma Counter_call_weekdaily_dom:
  assumes "Counter_call c r = Inr c'" and "weekdays c = weekdays Counter_new"
    and "dom (weekdaily c) \<subseteq> set (weekdays Counter_new)"
  shows "weekdays c' = weekdays Counter_new \<and> dom (weekdaily c') \<subseteq> set (weekdays Counter_new)"
proof -
  obtain sm where sm: "summary r = Some sm" using Counter_call_summary [OF assms(1)] by blast
  have "length (weekdays c) = 7" using assms(2) by (simp add: Counter_new_def)
  then have "weekdays c ! nat (py_int (toString (created r) ''%w'')) \<in> set (weekdays c)"
    using weekday_index [of "created r"] by simp
  then show ?thesis
    using Counter_call_fields(4,5) [OF assms(1) sm] assms(2,3) by (simp add: dom_add_bucket)
qed

lemma accumulate_weekdaily_dom:
  "accumulate c rs = Inr c' \<Longrightarrow> weekdays c = weekdays Counter_new \<Longrightarrow>
   dom (weekdaily c) \<subseteq> set (weekdays Counter_new) \<Longrightarrow>
   weekdays c' = weekdays Counter_new \<and> dom (weekdaily c') \<subseteq> set (weekdays Counter_new)"
proof (induction rs arbitrary: c)
  case Nil
  then show ?case by simp
next
  case (Cons r rs)
  then obtain c1 where c1: "Counter_call c r = Inr c1" and rest: "accumulate c1 rs = Inr c'"
    by (auto split: sum.splits)
  show ?case using Cons.IH [OF rest] Counter_call_weekdaily_dom [OF c1 Cons.prems(2,3)] by blast
qed

text \<open>
  Claim C5. The weekday keys of a counter are the seven strings \<open>$0Sunday\<close> to
  \<open>$6Saturday\<close>, and every key of the weekday dictionary is one of them, also after
  any sequence of calls. Sorting any set of these keys as strings gives them in calendar
  order, Sunday first: the sorted list is the list of weekdays restricted to the set.
  Dropping the first two characters of a key gives the weekday's name, and each key is
  \<open>$\<close>, the weekday's number and its name.
\<close>

theorem weekday_keys_sort_and_display:
  "weekdays (Counter_init start end) =
     [''$0Sunday'', ''$1Monday'', ''$2Tuesday'', ''$3Wednesday'', ''$4Thursday'', ''$5Friday'',
      ''$6Saturday'']
   \<and> (\<forall>c. accumulate (Counter_init start end) rs = Inr c \<longrightarrow>
         dom (weekdaily c) \<subseteq> set (weekdays (Counter_init start end)))
   \<and> (\<forall>K. K \<subseteq> set (weekdays (Counter_init start end)) \<longrightarrow>
         sorted_list_of_set K = filter (\<lambda>k. k \<in> K) (weekdays (Counter_init start end)))
   \<and> map weekdayDisplay (weekdays (Counter_init start end)) = weekday_names
   \<and> (\<forall>i<7. weekdays (Counter_init start end) ! i = CHR ''$'' # dec i @ weekday_names ! i)"
proof -
  have w: "weekdays (Counter_init start end) = weekdays Counter_new"
    by (rule Counter_init_weekdays)
  have 1: "weekdays Counter_new =
     [''$0Sunday'', ''$1Monday'', ''$2Tuesday'', ''$3Wednesday'', ''$4Thursday'', ''$5Friday'',
      ''$6Saturday'']"
    by (simp add: Counter_new_def)
  have 2: "\<forall>c. accumulate (Counter_init start end) rs = Inr c \<longrightarrow>
         dom (weekdaily c) \<subseteq> set (weekdays Counter_new)"
    using accumulate_weekdaily_dom [OF _ Counter_init_weekdays Counter_init_weekdaily_dom] by blast
  have 3: "\<forall>K. K \<subseteq> set (weekdays Counter_new) \<longrightarrow>
         sorted_list_of_set K = filter (\<lambda>k. k \<in> K) (weekdays Counter_new)"
    using sorted_weekday_keys by blast
  have 4: "map weekdayDisplay (weekdays Counter_new) = weekday_names"
    by (simp add: Counter_new_def weekday_names_def weekdayDisplay_def)
  have 5: "\<forall>i<7. weekdays Counter_new ! i = CHR ''$'' # dec i @ weekday_names ! i"
    by (simp add: Counter_new_def weekday_names_def All_less_Suc2 numeral_nat dec_small digit_def)
  show ?thesis unfolding w using 1 2 3 4 5 by blast
qed

lemma Counter_call_example: "\<exists>c. Counter_call (Counter_init (Some 1585699200) (Some 1585872000)) example_request = Inr c"
  by (simp add: Counter_call_def example_request_def)

theorem weekday_keys_sort_and_display_witness:
  "(\<exists>c. accumulate (Counter_init (Some 1585699200) (Some 1585872000)) [example_request] = Inr c
      \<and> dom (weekdaily c) \<subseteq> set (weekdays (Counter_init (Some 1585699200) (Some 1585872000))))
   \<and> {''$6Saturday'', ''$0Sunday'', ''$3Wednesday''} \<subseteq> set (weekdays (Counter_init (Some 1585699200) (Some 1585872000)))
   \<and> sorted_list_of_set {''$6Saturday'', ''$0Sunday'', ''$3Wednesday''} = [''$0Sunday'', ''$3Wednesday'', ''$6Saturday'']
   \<and> (3::nat) < 7 \<and> weekdayDisplay (weekdays (Counter_init (Some 1585699200) (Some 1585872000)) ! 3) = ''Wednesday''"
proof -
  note t = weekday_keys_sort_and_display [of "Some 1585699200" "Some 1585872000" "[example_request]"]
  have w: "weekdays (Counter_init (Some 1585699200) (Some 1585872000)) =
     [''$0Sunday'', ''$1Monday'', ''$2Tuesday'', ''$3Wednesday'', ''$4Thursday'', ''$5Friday'',
      ''$6Saturday'']" using t by blast
  have sub: "{''$6Saturday'', ''$0Sunday'', ''$3Wednesday''} \<subseteq> set (weekdays (Counter_init (Some 1585699200) (Some 1585872000)))"
    unfolding w by simp
  obtain c where c: "accumulate (Counter_init (Some 1585699200) (Some 1585872000)) [example_request] = Inr c"
    using Counter_call_example by (auto split: sum.splits)
  have d: "dom (weekdaily c) \<subseteq> set (weekdays (Counter_init (Some 1585699200) (Some 1585872000)))"
    using t c by blast
  have s: "sorted_list_of_set {''$6Saturday'', ''$0Sunday'', ''$3Wednesday''} =
      filter (\<lambda>k. k \<in> {''$6Saturday'', ''$0Sunday'', ''$3Wednesday''}) (weekdays (Counter_init (Some 1585699200) (Some 1585872000)))"
    using t sub by blast
  have s': "sorted_list_of_set {''$6Saturday'', ''$0Sunday'', ''$3Wednesday''} = [''$0Sunday'', ''$3Wednesday'', ''$6Saturday'']"
    unfolding s w by simp
  have n: "weekdayDisplay (weekdays (Counter_init (Some 1585699200) (Some 1585872000)) ! 3) = ''Wednesday''"
    unfolding w by (simp add: weekdayDisplay_def)
  show ?thesis using c d sub s' n by auto
qed



section \<open>The calendar\<close>

lemma int_div_bounds:
  fixes a b :: int
  assumes "0 < b"
  shows "b * (a div b) \<le> a \<and> a < b * (a div b) + b"
proof -
  have "b * (a div b) + a mod b = a" by simp
  moreover have "0 \<le> a mod b" and "a mod b < b" using assms by simp_all
  ultimately show ?thesis by linarith
qed

lemma cen_step:
  fixes doe c :: int
  shows "0 \<le> doe \<Longrightarrow> doe < 146097 \<Longrightarrow> 36524 * c \<le> doe \<Longrightarrow> doe < 36524 * c + 36524 \<Longrightarrow>
   0 \<le> min 3 c \<and> min 3 c \<le> 3 \<and> 0 \<le> doe - 36524 * min 3 c \<and> doe - 36524 * min 3 c \<le> 36524"
  by linarith

lemma q_step:
  fixes doc q :: int
  shows "0 \<le> doc \<Longrightarrow> doc \<le> 36524 \<Longrightarrow> 1461 * q \<le> doc \<Longrightarrow> doc < 1461 * q + 1461 \<Longrightarrow>
   0 \<le> q \<and> q \<le> 24"
  by linarith

lemma yq_step:
  fixes doq y :: int
  shows "0 \<le> doq \<Longrightarrow> doq < 1461 \<Longrightarrow> 365 * y \<le> doq \<Longrightarrow> doq < 365 * y + 365 \<Longrightarrow>
   0 \<le> min 3 y \<and> min 3 y \<le> 3 \<and> 0 \<le> doq - 365 * min 3 y \<and> doq - 365 * min 3 y \<le> 365"
  by linarith

lemma mp_step:
  fixes doy mp :: int
  shows "0 \<le> doy \<Longrightarrow> doy \<le> 365 \<Longrightarrow> 153 * mp \<le> 5 * doy + 2 \<Longrightarrow> 5 * doy + 2 < 153 * mp + 153 \<Longrightarrow>
   0 \<le> mp \<and> mp \<le> 11"
  by linarith

lemma day_step:
  fixes doy mp k :: int
  shows "153 * mp \<le> 5 * doy + 2 \<Longrightarrow> 5 * doy + 2 < 153 * mp + 153 \<Longrightarrow>
   5 * k \<le> 153 * mp + 2 \<Longrightarrow> 153 * mp + 2 < 5 * k + 5 \<Longrightarrow>
   1 \<le> doy - k + 1 \<and> doy - k + 1 \<le> 31"
  by linarith

lemma year_of_index:
  fixes mp y :: int
  shows "0 \<le> mp \<Longrightarrow> mp \<le> 11 \<Longrightarrow>
    (if (if mp < 10 then mp + 3 else mp - 9) \<le> 2 then y + 1 else y) = y + (if mp < 10 then 0 else 1)"
  by auto

lemma civil_from_days_decomp:
  obtains era cen q yq doy mp where
    "d + 719468 = 146097 * era + 36524 * cen + 1461 * q + 365 * yq + doy"
    "0 \<le> cen" "cen \<le> 3" "0 \<le> q" "q \<le> 24" "0 \<le> yq" "yq \<le> 3"
    "0 \<le> mp" "mp \<le> 11"
    "c_month (civil_from_days d) = (if mp < 10 then mp + 3 else mp - 9)"
    "c_day (civil_from_days d) = doy - (153 * mp + 2) div 5 + 1"
    "1 \<le> c_day (civil_from_days d)" "c_day (civil_from_days d) \<le> 31"
    "c_year (civil_from_days d) = 400 * era + 100 * cen + 4 * q + yq + (if mp < 10 then 0 else 1)"
proof -
  define z where "z = d + 719468"
  define era where "era = z div 146097"
  define doe where "doe = z mod 146097"
  define cen where "cen = min 3 (doe div 36524)"
  define doc where "doc = doe - 36524 * cen"
  define q where "q = doc div 1461"
  define doq where "doq = doc mod 1461"
  define yq where "yq = min 3 (doq div 365)"
  define doy where "doy = doq - 365 * yq"
  define mp where "mp = (5 * doy + 2) div 153"
  define k where "k = (153 * mp + 2) div 5"
  have doe: "0 \<le> doe \<and> doe < 146097" by (simp add: doe_def)
  have b1: "36524 * (doe div 36524) \<le> doe \<and> doe < 36524 * (doe div 36524) + 36524"
    by (rule int_div_bounds) simp
  have cen: "0 \<le> cen \<and> cen \<le> 3 \<and> 0 \<le> doc \<and> doc \<le> 36524"
    unfolding doc_def cen_def using cen_step [of doe "doe div 36524"] b1 doe by blast
  have b2: "1461 * (doc div 1461) \<le> doc \<and> doc < 1461 * (doc div 1461) + 1461"
    by (rule int_div_bounds) simp
  have q: "0 \<le> q \<and> q \<le> 24"
    unfolding q_def using q_step [of doc "doc div 1461"] b2 cen by blast
  have doq: "0 \<le> doq \<and> doq < 1461" by (simp add: doq_def)
  have b3: "365 * (doq div 365) \<le> doq \<and> doq < 365 * (doq div 365) + 365"
    by (rule int_div_bounds) simp
  have yq: "0 \<le> yq \<and> yq \<le> 3 \<and> 0 \<le> doy \<and> doy \<le> 365"
    unfolding doy_def yq_def using yq_step [of doq "doq div 365"] b3 doq by blast
  have mpb: "153 * mp \<le> 5 * doy + 2 \<and> 5 * doy + 2 < 153 * mp + 153"
    unfolding mp_def by (rule int_div_bounds) simp
  have mp: "0 \<le> mp \<and> mp \<le> 11" using mp_step [of doy mp] yq mpb by blast
  have kb: "5 * k \<le> 153 * mp + 2 \<and> 153 * mp + 2 < 5 * k + 5"
    unfolding k_def by (rule int_div_bounds) simp
  have day: "1 \<le> doy - k + 1 \<and> doy - k + 1 \<le> 31" using day_step [of mp doy k] mpb kb by blast
  have z1: "z = 146097 * era + doe" by (simp add: era_def doe_def)
  have z2: "doc = 1461 * q + doq" by (simp add: q_def doq_def)
  have sum: "d + 719468 = 146097 * era + 36524 * cen + 1461 * q + 365 * yq + doy"
    using z1 z2 z_def doc_def doy_def by linarith
  have eq: "civil_from_days d =
      \<lparr>c_year = (if (if mp < 10 then mp + 3 else mp - 9) \<le> 2
                 then 400 * era + 100 * cen + 4 * q + yq + 1
                 else 400 * era + 100 * cen + 4 * q + yq),
       c_month = (if mp < 10 then mp + 3 else mp - 9),
       c_day = doy - k + 1\<rparr>"
    unfolding civil_from_days_def Let_def k_def mp_def doy_def yq_def doq_def q_def doc_def cen_def
      doe_def era_def z_def by (rule refl)
  have year: "c_year (civil_from_days d) =
      400 * era + 100 * cen + 4 * q + yq + (if mp < 10 then 0 else 1)"
    unfolding eq using year_of_index [of mp "400 * era + 100 * cen + 4 * q + yq"] mp by simp
  have month: "c_month (civil_from_days d) = (if mp < 10 then mp + 3 else mp - 9)"
    unfolding eq by simp
  have cday: "c_day (civil_from_days d) = doy - (153 * mp + 2) div 5 + 1"
    unfolding eq k_def by simp
  have cday_range: "1 \<le> c_day (civil_from_days d) \<and> c_day (civil_from_days d) \<le> 31"
    unfolding cday k_def [symmetric] by (rule day)
  show ?thesis
    using that [of era cen q yq doy mp] sum cen q yq mp month cday cday_range year by blast
qed

lemma mixed_radix_unique:
  fixes e1 c1 q1 y1 e2 c2 q2 y2 :: int
  assumes "400 * e1 + 100 * c1 + 4 * q1 + y1 = 400 * e2 + 100 * c2 + 4 * q2 + y2"
    and "0 \<le> c1" "c1 \<le> 3" "0 \<le> q1" "q1 \<le> 24" "0 \<le> y1" "y1 \<le> 3"
    and "0 \<le> c2" "c2 \<le> 3" "0 \<le> q2" "q2 \<le> 24" "0 \<le> y2" "y2 \<le> 3"
  shows "e1 = e2 \<and> c1 = c2 \<and> q1 = q2 \<and> y1 = y2"
proof -
  have e: "e1 = e2" using assms by linarith
  have c: "c1 = c2" using assms e by linarith
  have q: "q1 = q2" using assms e c by linarith
  have "y1 = y2" using assms e c q by linarith
  then show ?thesis using e c q by blast
qed

lemma month_index_unique:
  fixes mp1 mp2 :: int
  shows "(if mp1 < 10 then mp1 + 3 else mp1 - 9) = (if mp2 < 10 then mp2 + 3 else mp2 - 9) \<Longrightarrow>
   0 \<le> mp1 \<Longrightarrow> mp1 \<le> 11 \<Longrightarrow> 0 \<le> mp2 \<Longrightarrow> mp2 \<le> 11 \<Longrightarrow> mp1 = mp2"
  by (auto split: if_splits)

lemma civil_from_days_inj:
  assumes "civil_from_days d1 = civil_from_days d2"
  shows "d1 = d2"
proof -
  obtain era1 cen1 q1 yq1 doy1 mp1 where 1:
    "d1 + 719468 = 146097 * era1 + 36524 * cen1 + 1461 * q1 + 365 * yq1 + doy1"
    "0 \<le> cen1" "cen1 \<le> 3" "0 \<le> q1" "q1 \<le> 24" "0 \<le> yq1" "yq1 \<le> 3"
    "0 \<le> mp1" "mp1 \<le> 11"
    "c_month (civil_from_days d1) = (if mp1 < 10 then mp1 + 3 else mp1 - 9)"
    "c_day (civil_from_days d1) = doy1 - (153 * mp1 + 2) div 5 + 1"
    "c_year (civil_from_days d1) =
       400 * era1 + 100 * cen1 + 4 * q1 + yq1 + (if mp1 < 10 then 0 else 1)"
    using civil_from_days_decomp [of d1] by metis
  obtain era2 cen2 q2 yq2 doy2 mp2 where 2:
    "d2 + 719468 = 146097 * era2 + 36524 * cen2 + 1461 * q2 + 365 * yq2 + doy2"
    "0 \<le> cen2" "cen2 \<le> 3" "0 \<le> q2" "q2 \<le> 24" "0 \<le> yq2" "yq2 \<le> 3"
    "0 \<le> mp2" "mp2 \<le> 11"
    "c_month (civil_from_days d2) = (if mp2 < 10 then mp2 + 3 else mp2 - 9)"
    "c_day (civil_from_days d2) = doy2 - (153 * mp2 + 2) div 5 + 1"
    "c_year (civil_from_days d2) =
       400 * era2 + 100 * cen2 + 4 * q2 + yq2 + (if mp2 < 10 then 0 else 1)"
    using civil_from_days_decomp [of d2] by metis
  have mp: "mp1 = mp2"
    using month_index_unique [of mp1 mp2] 1(8,9,10) 2(8,9,10) assms by simp
  have doy: "doy1 = doy2" using 1(11) 2(11) mp assms by simp
  have "400 * era1 + 100 * cen1 + 4 * q1 + yq1 = 400 * era2 + 100 * cen2 + 4 * q2 + yq2"
    using 1(12) 2(12) mp assms by simp
  then have "era1 = era2 \<and> cen1 = cen2 \<and> q1 = q2 \<and> yq1 = yq2"
    using mixed_radix_unique 1(2-7) 2(2-7) by blast
  then show ?thesis using 1(1) 2(1) doy by linarith
qed

lemma civil_from_days_ranges:
  "1 \<le> c_month (civil_from_days d) \<and> c_month (civil_from_days d) \<le> 12 \<and>
   1 \<le> c_day (civil_from_days d) \<and> c_day (civil_from_days d) \<le> 31"
proof -
  obtain mp :: int where "0 \<le> mp" "mp \<le> 11"
    "c_month (civil_from_days d) = (if mp < 10 then mp + 3 else mp - 9)"
    "1 \<le> c_day (civil_from_days d)" "c_day (civil_from_days d) \<le> 31"
    using civil_from_days_decomp [of d] by metis
  then show ?thesis by (auto split: if_splits)
qed



lemma fmt_d_inj: "fmt_d w a = fmt_d w b \<Longrightarrow> a = b"
  using py_int_fmt_d by metis

lemma toString_Ymd_inj:
  assumes "toString t1 ''%Y-%m-%d'' = toString t2 ''%Y-%m-%d''"
  shows "t1 div 86400 = t2 div 86400"
proof -
  let ?c1 = "civil_from_days (t1 div 86400)" and ?c2 = "civil_from_days (t2 div 86400)"
  have r1: "length (fmt_d 2 (c_month ?c1)) = 2" "length (fmt_d 2 (c_day ?c1)) = 2"
    using civil_from_days_ranges [of "t1 div 86400"] by (simp_all add: length_fmt_d_2)
  have r2: "length (fmt_d 2 (c_month ?c2)) = 2" "length (fmt_d 2 (c_day ?c2)) = 2"
    using civil_from_days_ranges [of "t2 div 86400"] by (simp_all add: length_fmt_d_2)
  have "fmt_d 4 (c_year ?c1) @ (''-'' @ fmt_d 2 (c_month ?c1) @ ''-'' @ fmt_d 2 (c_day ?c1)) =
        fmt_d 4 (c_year ?c2) @ (''-'' @ fmt_d 2 (c_month ?c2) @ ''-'' @ fmt_d 2 (c_day ?c2))"
    using assms unfolding toString_Ymd by simp
  then have y: "fmt_d 4 (c_year ?c1) = fmt_d 4 (c_year ?c2)"
    and rest: "fmt_d 2 (c_month ?c1) @ (''-'' @ fmt_d 2 (c_day ?c1)) =
               fmt_d 2 (c_month ?c2) @ (''-'' @ fmt_d 2 (c_day ?c2))"
    using r1 r2 by (simp_all add: append_eq_append_conv)
  have m: "fmt_d 2 (c_month ?c1) = fmt_d 2 (c_month ?c2)"
    and d: "fmt_d 2 (c_day ?c1) = fmt_d 2 (c_day ?c2)"
    using rest r1 r2 by (simp_all add: append_eq_append_conv)
  have "?c1 = ?c2" using fmt_d_inj [OF y] fmt_d_inj [OF m] fmt_d_inj [OF d] by simp
  then show ?thesis by (rule civil_from_days_inj)
qed

lemma day_number_shift: "(t + 86400 * int k) div 86400 = t div 86400 + int k"
  by simp

lemma day_key_inj: "inj (\<lambda>k. toString (t + 86400 * int k) ''%Y-%m-%d'')"
proof (rule injI)
  fix a b
  assume "toString (t + 86400 * int a) ''%Y-%m-%d'' = toString (t + 86400 * int b) ''%Y-%m-%d''"
  then have "(t + 86400 * int a) div 86400 = (t + 86400 * int b) div 86400"
    by (rule toString_Ymd_inj)
  then show "a = b" unfolding day_number_shift by simp
qed

lemma preset_keys_stop: "\<not> t < e \<Longrightarrow> preset_keys c t e = c"
  by (subst preset_keys.simps) simp

lemma preset_keys_step: "t < e \<Longrightarrow> preset_keys c t e = preset_keys (preset_day c t) (t + 86400) e"
  by (subst preset_keys.simps) simp

lemma day_steps_split:
  assumes "t < e"
  shows "(\<lambda>k. f (t + 86400 * int k)) ` {k. t + 86400 * int k < e} =
         insert (f t) ((\<lambda>k. f (t + 86400 + 86400 * int k)) ` {k. t + 86400 + 86400 * int k < e})"
    (is "?L = ?R")
proof
  show "?L \<subseteq> ?R"
  proof
    fix x assume "x \<in> ?L"
    then obtain k where k: "t + 86400 * int k < e" "x = f (t + 86400 * int k)" by auto
    show "x \<in> ?R"
    proof (cases k)
      case 0
      then show ?thesis using k by simp
    next
      case (Suc j)
      have e: "t + 86400 * int k = t + 86400 + 86400 * int j" using Suc by simp
      have "x = f (t + 86400 + 86400 * int j)" "t + 86400 + 86400 * int j < e"
        using k unfolding e by simp_all
      then show ?thesis by blast
    qed
  qed
  show "?R \<subseteq> ?L"
  proof
    fix x assume "x \<in> ?R"
    then consider "x = f t" | j where "t + 86400 + 86400 * int j < e" "x = f (t + 86400 + 86400 * int j)"
      by auto
    then show "x \<in> ?L"
    proof cases
      case 1
      have "t + 86400 * int 0 < e" "x = f (t + 86400 * int 0)" using assms 1 by simp_all
      then show ?thesis by blast
    next
      case 2
      have e: "t + 86400 + 86400 * int j = t + 86400 * int (Suc j)" by simp
      have "t + 86400 * int (Suc j) < e" "x = f (t + 86400 * int (Suc j))"
        using 2 unfolding e by simp_all
      then show ?thesis by blast
    qed
  qed
qed

lemma preset_keys_daily_dom:
  "dom (daily (preset_keys c t e)) =
   dom (daily c) \<union> (\<lambda>k. toString (t + 86400 * int k) ''%Y-%m-%d'') ` {k. t + 86400 * int k < e}"
proof (induction c t e rule: preset_keys.induct)
  case (1 c t e)
  show ?case
  proof (cases "t < e")
    case True
    show ?thesis
      unfolding preset_keys_step [OF True] "1.IH" [OF True]
        day_steps_split [OF True, of "\<lambda>u. toString u ''%Y-%m-%d''"]
      by (simp add: preset_day_fields dom_setdefault)
  next
    case False
    then have "{k. t + 86400 * int k < e} = {}" by auto
    then show ?thesis using False by (simp add: preset_keys_stop)
  qed
qed

lemma ran_setdefault: "ran m \<subseteq> {v} \<Longrightarrow> ran (fst (setdefault m k v)) \<subseteq> {v}"
  by (auto simp: fst_setdefault ran_def)

lemma preset_keys_zero:
  "ran (daily c) \<subseteq> {zero_metrics} \<Longrightarrow> ran (monthly c) \<subseteq> {zero_metrics} \<Longrightarrow>
   ran (weekdaily c) \<subseteq> {zero_metrics} \<Longrightarrow>
   ran (daily (preset_keys c t e)) \<subseteq> {zero_metrics} \<and>
   ran (monthly (preset_keys c t e)) \<subseteq> {zero_metrics} \<and>
   ran (weekdaily (preset_keys c t e)) \<subseteq> {zero_metrics}"
proof (induction c t e rule: preset_keys.induct)
  case (1 c t e)
  show ?case
  proof (cases "t < e")
    case True
    show ?thesis unfolding preset_keys_step [OF True]
      by (rule "1.IH" [OF True]) (simp_all only: preset_day_fields ran_setdefault "1.prems")
  next
    case False
    then show ?thesis using "1.prems" by (simp add: preset_keys_stop)
  qed
qed



lemma day_steps_count:
  "{k::nat. t + 86400 * int k < e} = {..<nat \<lceil>(of_int (e - t) :: rat) / 86400\<rceil>}"
proof -
  have "(t + 86400 * int k < e) = (k < nat \<lceil>(of_int (e - t) :: rat) / 86400\<rceil>)" for k
  proof -
    have "(t + 86400 * int k < e) = (int k * 86400 < e - t)" by linarith
    also have "\<dots> = ((of_int (int k * 86400) :: rat) < of_int (e - t))"
      by (simp only: of_int_less_iff)
    also have "\<dots> = ((of_int (int k) :: rat) * 86400 < of_int (e - t))" by simp
    also have "\<dots> = ((of_int (int k) :: rat) < of_int (e - t) / 86400)"
      by (rule pos_less_divide_eq [symmetric]) simp
    also have "\<dots> = (int k < \<lceil>(of_int (e - t) :: rat) / 86400\<rceil>)" by (simp only: less_ceiling_iff)
    also have "\<dots> = (k < nat \<lceil>(of_int (e - t) :: rat) / 86400\<rceil>)" by linarith
    finally show ?thesis .
  qed
  then show ?thesis by auto
qed



lemma hour_keys:
  "map (\<lambda>h. fmt_d 2 (int h)) [0..<24] =
     [''00'', ''01'', ''02'', ''03'', ''04'', ''05'', ''06'', ''07'', ''08'', ''09'', ''10'', ''11'',
      ''12'', ''13'', ''14'', ''15'', ''16'', ''17'', ''18'', ''19'', ''20'', ''21'', ''22'', ''23'']"
  by code_simp

lemma fold_preset_hour_dom:
  "dom (hourly (fold preset_hour hs c)) = dom (hourly c) \<union> (\<lambda>h. fmt_d 2 (int h)) ` set hs"
  by (induction hs arbitrary: c) (auto simp: preset_hour_def dom_setdefault)

lemma fold_preset_hour_zero:
  "ran (hourly c) \<subseteq> {zero_metrics} \<Longrightarrow> ran (hourly (fold preset_hour hs c)) \<subseteq> {zero_metrics}"
proof (induction hs arbitrary: c)
  case Nil
  then show ?case by simp
next
  case (Cons h hs)
  have "ran (hourly (preset_hour h c)) \<subseteq> {zero_metrics}"
    using Cons.prems by (simp add: preset_hour_def ran_setdefault)
  then show ?case using Cons.IH by simp
qed

lemma ran_zero_lookup: "ran m \<subseteq> {v} \<Longrightarrow> k \<in> dom m \<Longrightarrow> m k = Some v"
  by (auto simp: ran_def)

lemma Counter_new_fields:
  "hourly Counter_new = Map.empty" "daily Counter_new = Map.empty"
  "monthly Counter_new = Map.empty" "weekdaily Counter_new = Map.empty"
  by (simp_all add: Counter_new_def)

lemma Counter_init_hourly:
  "dom (hourly (Counter_init (Some s) (Some e))) =
     set [''00'', ''01'', ''02'', ''03'', ''04'', ''05'', ''06'', ''07'', ''08'', ''09'', ''10'', ''11'',
          ''12'', ''13'', ''14'', ''15'', ''16'', ''17'', ''18'', ''19'', ''20'', ''21'', ''22'', ''23'']"
  unfolding hour_keys [symmetric]
  by (simp add: Counter_init_def fold_preset_hour_dom preset_keys_hourly Counter_new_fields)

lemma Counter_init_hourly_card: "card (dom (hourly (Counter_init (Some s) (Some e)))) = 24"
  unfolding Counter_init_hourly by (subst distinct_card) simp_all

lemma Counter_init_zero:
  "ran (hourly (Counter_init (Some s) (Some e))) \<subseteq> {zero_metrics}"
  "ran (daily (Counter_init (Some s) (Some e))) \<subseteq> {zero_metrics}"
  "ran (monthly (Counter_init (Some s) (Some e))) \<subseteq> {zero_metrics}"
  "ran (weekdaily (Counter_init (Some s) (Some e))) \<subseteq> {zero_metrics}"
proof -
  have z: "ran (daily (preset_keys Counter_new s e)) \<subseteq> {zero_metrics} \<and>
        ran (monthly (preset_keys Counter_new s e)) \<subseteq> {zero_metrics} \<and>
        ran (weekdaily (preset_keys Counter_new s e)) \<subseteq> {zero_metrics}"
    by (rule preset_keys_zero) (simp_all add: Counter_new_fields)
  show "ran (hourly (Counter_init (Some s) (Some e))) \<subseteq> {zero_metrics}"
    unfolding Counter_init_def
    by (simp add: fold_preset_hour_zero preset_keys_hourly Counter_new_fields)
  show "ran (daily (Counter_init (Some s) (Some e))) \<subseteq> {zero_metrics}"
    using z by (simp add: Counter_init_def fold_preset_hour_other)
  show "ran (monthly (Counter_init (Some s) (Some e))) \<subseteq> {zero_metrics}"
    using z by (simp add: Counter_init_def fold_preset_hour_other)
  show "ran (weekdaily (Counter_init (Some s) (Some e))) \<subseteq> {zero_metrics}"
    using z by (simp add: Counter_init_def fold_preset_hour_other)
qed

lemma Counter_init_daily_dom:
  "dom (daily (Counter_init (Some s) (Some e))) =
   (\<lambda>k. toString (s + 86400 * int k) ''%Y-%m-%d'') ` {..<nat \<lceil>(of_int (e - s) :: rat) / 86400\<rceil>}"
  by (simp add: Counter_init_def fold_preset_hour_other preset_keys_daily_dom Counter_new_fields
      day_steps_count)

lemma Counter_init_daily_card:
  "card (dom (daily (Counter_init (Some s) (Some e)))) = nat \<lceil>(of_int (e - s) :: rat) / 86400\<rceil>"
  unfolding Counter_init_daily_dom
  using card_image [OF inj_on_subset [OF day_key_inj [of s] subset_UNIV]] by simp

section \<open>The keys preset by the constructor\<close>

text \<open>
  Claim C4. For \<open>start < end\<close> the constructor presets exactly the 24 hourly keys
  \<open>00\<close> to \<open>23\<close> and exactly \<open>\<lceil>(end - start) / 86400\<rceil>\<close> daily keys, one for each
  step of the loop (the days are distinct, the day key being injective on day numbers),
  and every preset hourly and daily bucket is \<open>(0, 0, 0, 0)\<close>.
\<close>

theorem Counter_init_preset_keys:
  assumes "s < e"
  shows "dom (hourly (Counter_init (Some s) (Some e))) =
     set [''00'', ''01'', ''02'', ''03'', ''04'', ''05'', ''06'', ''07'', ''08'', ''09'', ''10'', ''11'',
          ''12'', ''13'', ''14'', ''15'', ''16'', ''17'', ''18'', ''19'', ''20'', ''21'', ''22'', ''23'']
   \<and> card (dom (hourly (Counter_init (Some s) (Some e)))) = 24
   \<and> card (dom (daily (Counter_init (Some s) (Some e)))) = nat \<lceil>(of_int (e - s) :: rat) / 86400\<rceil>
   \<and> (\<forall>k \<in> dom (hourly (Counter_init (Some s) (Some e))).
         hourly (Counter_init (Some s) (Some e)) k = Some (0, 0, 0, 0))
   \<and> (\<forall>k \<in> dom (daily (Counter_init (Some s) (Some e))).
         daily (Counter_init (Some s) (Some e)) k = Some (0, 0, 0, 0))"
  using Counter_init_hourly [of s e] Counter_init_hourly_card [of s e] Counter_init_daily_card [of s e]
    ran_zero_lookup [OF Counter_init_zero(1) [of s e]] ran_zero_lookup [OF Counter_init_zero(2) [of s e]]
  unfolding zero_metrics_def by blast



lemma toString_example: "toString 1585699200 ''%Y-%m-%d'' = ''2020-04-01''"
  by code_simp

theorem Counter_init_preset_keys_witness:
  "(1585699200::int) < 1585872001
   \<and> card (dom (hourly (Counter_init (Some 1585699200) (Some 1585872001)))) = 24
   \<and> card (dom (daily (Counter_init (Some 1585699200) (Some 1585872001)))) = 3
   \<and> hourly (Counter_init (Some 1585699200) (Some 1585872001)) ''23'' = Some (0, 0, 0, 0)
   \<and> daily (Counter_init (Some 1585699200) (Some 1585872001)) ''2020-04-01'' = Some (0, 0, 0, 0)"
proof -
  have lt: "(1585699200::int) < 1585872001" by simp
  note t = Counter_init_preset_keys [OF lt]
  have n: "nat \<lceil>(of_int (1585872001 - 1585699200) :: rat) / 86400\<rceil> = 3"
  proof -
    have "\<lceil>(172801::rat) / 86400\<rceil> = 3" by (rule ceiling_unique) simp_all
    then show ?thesis by simp
  qed
  have h: "''23'' \<in> dom (hourly (Counter_init (Some 1585699200) (Some 1585872001)))"
    using t by simp
  have "toString (1585699200 + 86400 * int 0) ''%Y-%m-%d'' \<in>
      dom (daily (Counter_init (Some 1585699200) (Some 1585872001)))"
    unfolding Counter_init_daily_dom n by (rule imageI) simp
  then have d: "''2020-04-01'' \<in> dom (daily (Counter_init (Some 1585699200) (Some 1585872001)))"
    by (simp add: toString_example)
  show ?thesis using t lt n h d by auto
qed

text \<open>
  Claim C2, as the code has it. The constructor has no check of the range and raises
  nothing: for \<open>end \<le> start\<close> the loop body never runs, so the daily, monthly and weekday
  dictionaries stay empty, and the 24 hourly buckets are preset to \<open>(0, 0, 0, 0)\<close> all
  the same.
\<close>

theorem Counter_init_empty_range:
  assumes "e \<le> s"
  shows "daily (Counter_init (Some s) (Some e)) = Map.empty
   \<and> monthly (Counter_init (Some s) (Some e)) = Map.empty
   \<and> weekdaily (Counter_init (Some s) (Some e)) = Map.empty
   \<and> dom (hourly (Counter_init (Some s) (Some e))) =
     set [''00'', ''01'', ''02'', ''03'', ''04'', ''05'', ''06'', ''07'', ''08'', ''09'', ''10'', ''11'',
          ''12'', ''13'', ''14'', ''15'', ''16'', ''17'', ''18'', ''19'', ''20'', ''21'', ''22'', ''23'']
   \<and> (\<forall>k \<in> dom (hourly (Counter_init (Some s) (Some e))).
         hourly (Counter_init (Some s) (Some e)) k = Some (0, 0, 0, 0))"
proof -
  have stop: "preset_keys Counter_new s e = Counter_new"
    using assms by (simp add: preset_keys_stop)
  have "daily (Counter_init (Some s) (Some e)) = Map.empty"
    "monthly (Counter_init (Some s) (Some e)) = Map.empty"
    "weekdaily (Counter_init (Some s) (Some e)) = Map.empty"
    by (simp_all add: Counter_init_def fold_preset_hour_other stop Counter_new_fields)
  then show ?thesis
    using Counter_init_hourly [of s e] ran_zero_lookup [OF Counter_init_zero(1) [of s e]]
    unfolding zero_metrics_def by blast
qed

theorem Counter_init_empty_range_witness:
  "(1585699200::int) \<le> 1585785600
   \<and> daily (Counter_init (Some 1585785600) (Some 1585699200)) = Map.empty
   \<and> ''12'' \<in> dom (hourly (Counter_init (Some 1585785600) (Some 1585699200)))
   \<and> hourly (Counter_init (Some 1585785600) (Some 1585699200)) ''12'' = Some (0, 0, 0, 0)"
proof -
  have le: "(1585699200::int) \<le> 1585785600" by simp
  note t = Counter_init_empty_range [OF le]
  have h: "''12'' \<in> dom (hourly (Counter_init (Some 1585785600) (Some 1585699200)))"
    using t by simp
  show ?thesis using t le h by auto
qed

text \<open>
  Claim C2 as stated fails: for start 2020-04-02 and end 2020-04-01 the constructor returns
  a counter, with the 24 hourly buckets preset and no other bucket.
\<close>

theorem Counter_init_no_InvalidRangeError:
  "card (dom (hourly (Counter_init (Some 1585785600) (Some 1585699200)))) = 24
   \<and> hourly (Counter_init (Some 1585785600) (Some 1585699200)) ''00'' = Some (0, 0, 0, 0)
   \<and> daily (Counter_init (Some 1585785600) (Some 1585699200)) = Map.empty
   \<and> monthly (Counter_init (Some 1585785600) (Some 1585699200)) = Map.empty
   \<and> weekdaily (Counter_init (Some 1585785600) (Some 1585699200)) = Map.empty"
proof -
  have stop: "preset_keys Counter_new 1585785600 1585699200 = Counter_new"
    by (simp add: preset_keys_stop)
  have e: "daily (Counter_init (Some 1585785600) (Some 1585699200)) = Map.empty"
    "monthly (Counter_init (Some 1585785600) (Some 1585699200)) = Map.empty"
    "weekdaily (Counter_init (Some 1585785600) (Some 1585699200)) = Map.empty"
    by (simp_all add: Counter_init_def fold_preset_hour_other stop Counter_new_fields)
  have "''00'' \<in> dom (hourly (Counter_init (Some 1585785600) (Some 1585699200)))"
    unfolding Counter_init_hourly by simp
  then have "hourly (Counter_init (Some 1585785600) (Some 1585699200)) ''00'' = Some zero_metrics"
    by (rule ran_zero_lookup [OF Counter_init_zero(1)])
  then show ?thesis using e Counter_init_hourly_card by (simp add: zero_metrics_def)
qed



section \<open>Calls of the counter\<close>

lemma add_bucket_apply:
  "add_bucket d k l e v =
     d(k \<mapsto> metrics_add (case d k of None \<Rightarrow> (0, 0, 0, 0) | Some x \<Rightarrow> x) (1, l, e, v))"
  by (auto simp: add_bucket_def setdefault_def metrics_add_def zero_metrics_def
      split: option.splits prod.splits)

lemma metrics_add_commute3:
  "metrics_add (metrics_add a b) c = metrics_add (metrics_add a c) b"
  by (simp add: metrics_add_def split: prod.splits)

lemma add_bucket_commute:
  "add_bucket (add_bucket d k1 l1 e1 v1) k2 l2 e2 v2 =
   add_bucket (add_bucket d k2 l2 e2 v2) k1 l1 e1 v1"
proof (cases "k1 = k2")
  case True
  then show ?thesis by (simp add: add_bucket_apply metrics_add_commute3)
next
  case False
  then show ?thesis by (auto simp: add_bucket_apply fun_eq_iff)
qed

lemma Counter_call_Some:
  assumes "summary r = Some sm"
  shows "Counter_call c r = Inr (c
    \<lparr>hourly := add_bucket (hourly c) (toString (created r) ''%H'')
        (fst (snd (request_metrics sm r))) (fst (snd (snd (request_metrics sm r))))
        (snd (snd (snd (request_metrics sm r)))),
     daily := add_bucket (daily c) (toString (created r) ''%Y-%m-%d'')
        (fst (snd (request_metrics sm r))) (fst (snd (snd (request_metrics sm r))))
        (snd (snd (snd (request_metrics sm r)))),
     monthly := add_bucket (monthly c) (toString (created r) ''%Y-%m'')
        (fst (snd (request_metrics sm r))) (fst (snd (snd (request_metrics sm r))))
        (snd (snd (snd (request_metrics sm r)))),
     weekdaily := add_bucket (weekdaily c) (weekdays c ! nat (py_int (toString (created r) ''%w'')))
        (fst (snd (request_metrics sm r))) (fst (snd (snd (request_metrics sm r))))
        (snd (snd (snd (request_metrics sm r))))\<rparr>)"
  using assms by (simp add: Counter_call_def Let_def request_metrics_def)

text \<open>
  Claim C6. Calling a freshly constructed counter with a request \<open>R1\<close> and then with
  \<open>R2\<close> succeeds and leaves the hourly, daily, monthly and weekday dictionaries equal to
  those left by calling it with \<open>R2\<close> and then with \<open>R1\<close>. The requests are those the
  selector passes on, which have a summary.
\<close>

theorem accumulate_order_independent:
  assumes "summary r1 \<noteq> None" and "summary r2 \<noteq> None"
  shows "\<exists>c c'. accumulate (Counter_init start end) [r1, r2] = Inr c
           \<and> accumulate (Counter_init start end) [r2, r1] = Inr c'
           \<and> hourly c = hourly c' \<and> daily c = daily c' \<and> monthly c = monthly c'
           \<and> weekdaily c = weekdaily c'"
proof -
  obtain s1 s2 where s: "summary r1 = Some s1" "summary r2 = Some s2" using assms by auto
  show ?thesis
    by (simp add: Counter_call_Some [OF s(1)] Counter_call_Some [OF s(2)]
        add_bucket_commute [of _ "toString (created r1) ''%H''"]
        add_bucket_commute [of _ "toString (created r1) ''%Y-%m-%d''"]
        add_bucket_commute [of _ "toString (created r1) ''%Y-%m''"]
        add_bucket_commute [of _ "weekdays (Counter_init start end) ! nat (py_int (toString (created r1) ''%w''))"])
qed

theorem accumulate_order_independent_witness:
  "summary example_request \<noteq> None \<and> summary example_request2 \<noteq> None
   \<and> (\<exists>c c'. accumulate (Counter_init (Some 1585699200) (Some 1585872000))
                 [example_request, example_request2] = Inr c
           \<and> accumulate (Counter_init (Some 1585699200) (Some 1585872000))
                 [example_request2, example_request] = Inr c'
           \<and> hourly c = hourly c' \<and> daily c = daily c' \<and> monthly c = monthly c'
           \<and> weekdaily c = weekdaily c')"
proof -
  have 1: "summary example_request \<noteq> None" by (simp add: example_request_def)
  have 2: "summary example_request2 \<noteq> None" by (simp add: example_request2_def)
  show ?thesis
    using accumulate_order_independent [OF 1 2, of "Some 1585699200" "Some 1585872000"] 1 2
    by blast
qed

















section \<open>The selection loop\<close>


lemma foldl_line_step:
  "foldl (line_step A) acc ls =
     \<lparr>Xlines = Xlines acc @ filter (\<lambda>line. \<not> line_skipped A line) ls,
      foundLine = (foundLine acc \<or> filter (\<lambda>line. \<not> line_skipped A line) ls \<noteq> []),
      lineCount = lineCount acc + int (length (filter (\<lambda>line. \<not> line_skipped A line) ls)),
      errorCount = errorCount acc +
        int (length (filter (\<lambda>line. sl_status (rl_status line) \<noteq> ''OK'')
               (filter (\<lambda>line. \<not> line_skipped A line) ls))),
      tw = tw acc + sum_list (map (\<lambda>line. max (rl_end line - rl_start line) 0)
               (filter (\<lambda>line. \<not> line_skipped A line) ls))\<rparr>"
proof (induction ls arbitrary: acc)
  case Nil
  then show ?case by simp
next
  case (Cons l ls)
  show ?case
  proof (cases "line_skipped A l")
    case True
    then show ?thesis using Cons.IH [of acc] by (simp add: line_step_def)
  next
    case False
    then show ?thesis
      unfolding foldl_Cons Cons.IH by (simp add: line_step_def max_def)
  qed
qed












text \<open>
  The summary of a copy made with the request lines: the counts are those of the lines that
  are not skipped, and the average is the mean of their time windows, negative windows
  counting as 0; it is 0 without such lines and \<open>-1\<close> when the mean is above \<open>2 ^ 32\<close>.
\<close>

lemma line_summary_mean:
  fixes ls :: "ArclinkRequestLine list" and A :: Args
  defines "ms \<equiv> filter (\<lambda>line. \<not> line_skipped A line) ls"
  defines "mean \<equiv> (of_int (sum_list (map (\<lambda>line. max (rl_end line - rl_start line) 0) ms)) :: rat)
                     / of_int (int (length ms))"
  shows "line_summary (foldl (line_step A)
           \<lparr>Xlines = [], foundLine = False, lineCount = 0, errorCount = 0, tw = 0\<rparr> ls) =
         \<lparr>okLineCount = int (length ms) -
            int (length (filter (\<lambda>line. sl_status (rl_status line) \<noteq> ''OK'') ms)),
          totalLineCount = int (length ms),
          averageTimeWindow = (if ms = [] then 0 else if mean > 2 ^ 32 then - 1 else mean)\<rparr>"
  unfolding foldl_line_step line_summary_def Let_def ms_def [symmetric] mean_def
  by (cases ms) simp_all









section \<open>The loops of the summary\<close>

lemma summary_sline_fields:
  "s_streams (fst (summary_sline user (S, ve) sline)) = s_streams S"
  "s_nets (fst (summary_sline user (S, ve) sline)) = s_nets S"
  "s_errors (fst (summary_sline user (S, ve) sline)) = s_errors S"
  "volume_bytes (fst (summary_sline user (S, ve) sline)) v =
     volume_bytes S v +
       (if sl_volumeID sline = v then (if sl_status sline = ''ERROR'' then 0 else sl_size sline)
        else 0)"
  "snd (summary_sline user (S, ve) sline) =
     ve(sl_volumeID sline \<mapsto> sl_status sline = ''ERROR'')"
  by (auto simp: summary_sline_def Let_def volume_bytes_def setdefault_def
      split: option.splits prod.splits)

lemma volume_flags_snoc:
  "volume_flags (sls @ [sline]) =
     (volume_flags sls)(sl_volumeID sline \<mapsto> sl_status sline = ''ERROR'')"
  by (auto simp: volume_flags_def fun_eq_iff Let_def)

lemma foldl_summary_sline:
  "s_streams (fst (foldl (summary_sline user) (S, ve) sls)) = s_streams S \<and>
   s_nets (fst (foldl (summary_sline user) (S, ve) sls)) = s_nets S \<and>
   s_errors (fst (foldl (summary_sline user) (S, ve) sls)) = s_errors S \<and>
   volume_bytes (fst (foldl (summary_sline user) (S, ve) sls)) v =
     volume_bytes S v +
       sum_list (map (\<lambda>sline. if sl_status sline = ''ERROR'' then 0 else sl_size sline)
                  (filter (\<lambda>sline. sl_volumeID sline = v) sls)) \<and>
   (ve = Map.empty \<longrightarrow> snd (foldl (summary_sline user) (S, ve) sls) = volume_flags sls)"
proof (induction sls rule: rev_induct)
  case Nil
  then show ?case by (simp add: volume_flags_def fun_eq_iff)
next
  case (snoc sline sls)
  obtain S1 ve1 where st: "foldl (summary_sline user) (S, ve) sls = (S1, ve1)"
    by (cases "foldl (summary_sline user) (S, ve) sls")
  show ?case
    using snoc unfolding foldl_append st
    by (simp add: summary_sline_fields volume_flags_snoc)
qed



lemma net_key_cases:
  "net_key line =
     (if networkCode (streamID line) = [] then Inl IndexError
      else if hd (networkCode (streamID line)) \<in> {CHR ''X'', CHR ''Y'', CHR ''Z''}
      then Inr (networkCode (streamID line) @ ''/'' @ toString (rl_start line) ''%Y'')
      else Inr (networkCode (streamID line)))"
  by (cases "networkCode (streamID line)") (simp_all add: net_key_def)

lemma summary_line_Inr:
  assumes "summary_line ve (S, nc) line = Inr (S', nc')"
  shows "s_volumes S' = s_volumes S" and "s_nets S' = s_nets S" and "s_errors S' = s_errors S"
    and "station_bytes S' k =
           station_bytes S k + (if stream_of line = k then line_size ve line else 0)"
    and "\<exists>key. net_key line = Inr key \<and> dom nc' = insert key (dom nc)"
  using assms
  by (auto simp: summary_line_def Let_def station_bytes_def stream_of_def setdefault_def
      split: sum.splits option.splits prod.splits)

lemma summary_line_returns:
  "networkCode (streamID line) \<noteq> [] \<Longrightarrow> \<exists>st'. summary_line ve st line = Inr st'"
  by (cases st) (auto simp: summary_line_def Let_def net_key_cases split: sum.splits)

lemma for_each_summary_line:
  "for_each (summary_line ve) (S, nc) ls = Inr (S', nc') \<Longrightarrow>
   s_volumes S' = s_volumes S \<and> s_nets S' = s_nets S \<and> s_errors S' = s_errors S \<and>
   station_bytes S' k =
     station_bytes S k + sum_list (map (line_size ve) (filter (\<lambda>line. stream_of line = k) ls)) \<and>
   dom nc' = dom nc \<union> {key. \<exists>line \<in> set ls. net_key line = Inr key}"
proof (induction ls arbitrary: S nc)
  case Nil
  then show ?case by simp
next
  case (Cons l ls)
  from Cons.prems obtain S1 nc1 where
    1: "summary_line ve (S, nc) l = Inr (S1, nc1)" and
    2: "for_each (summary_line ve) (S1, nc1) ls = Inr (S', nc')"
    by (auto split: sum.splits)
  obtain key where key: "net_key l = Inr key" "dom nc1 = insert key (dom nc)"
    using summary_line_Inr(5) [OF 1] by blast
  have d: "dom nc' = dom nc1 \<union> {key. \<exists>line \<in> set ls. net_key line = Inr key}"
    using Cons.IH [OF 2] by blast
  have "dom nc' = dom nc \<union> {key. \<exists>line \<in> set (l # ls). net_key line = Inr key}"
    unfolding d key(2) using key(1) by auto
  then show ?case
    using Cons.IH [OF 2] summary_line_Inr(1,2,3) [OF 1] summary_line_Inr(4) [OF 1, of k]
    by simp
qed

lemma for_each_summary_line_returns:
  "\<forall>line \<in> set ls. networkCode (streamID line) \<noteq> [] \<Longrightarrow>
   \<exists>st'. for_each (summary_line ve) st ls = Inr st'"
proof (induction ls arbitrary: st)
  case Nil
  then show ?case by simp
next
  case (Cons l ls)
  obtain st1 where "summary_line ve st l = Inr st1"
    using summary_line_returns [of l ve st] Cons.prems by auto
  then show ?case using Cons.IH [of st1] Cons.prems by simp
qed

lemma dom_add_netcounts: "dom (add_netcounts nets nc) = dom nets \<union> dom nc"
  by (auto simp: add_netcounts_def split: option.splits prod.splits)

lemma loaded_summary:
  "summary (loadArclinkStatusLines db r) = summary r"
  "summary (loadArclinkRequestLines db r) = summary r"
  by (simp_all add: loadArclinkStatusLines_def loadArclinkRequestLines_def)

lemma summary_request_Inr:
  assumes "summary_request db export S request = Inr S'"
  shows "volume_bytes S' v =
           volume_bytes S v +
             sum_list (map (\<lambda>sline. if sl_status sline = ''ERROR'' then 0 else sl_size sline)
               (filter (\<lambda>sline. sl_volumeID sline = v) (status_lines_read db request)))"
    and "station_bytes S' k =
           station_bytes S k +
             sum_list (map (line_size (volume_flags (status_lines_read db request)))
               (filter (\<lambda>line. stream_of line = k) (request_lines_read db export request)))"
    and "dom (s_nets S') =
           dom (s_nets S) \<union>
             {key. \<exists>line \<in> set (request_lines_read db export request). net_key line = Inr key}"
proof -
  define request1 where "request1 =
    (if length (arclinkStatusLines request) = 0 then loadArclinkStatusLines db request else request)"
  define request2 where "request2 =
    (if export \<and> py_upper (req_type request1) = ''WAVEFORM'' \<and>
        length (arclinkRequestLines request1) = 0
     then loadArclinkRequestLines db request1 else request1)"
  define st1 where "st1 = foldl (summary_sline (userID request)) (S, Map.empty)
    (arclinkStatusLines request1)"
  have sl: "arclinkStatusLines request1 = status_lines_read db request"
    by (simp add: request1_def status_lines_read_def)
  have rl: "arclinkRequestLines request2 = request_lines_read db export request"
    by (simp add: request2_def request1_def request_lines_read_def Let_def)
  have ve: "snd st1 = volume_flags (status_lines_read db request)"
    using foldl_summary_sline [of "userID request" S Map.empty "arclinkStatusLines request1"]
    unfolding st1_def sl by simp
  from assms obtain S2 nc where
    lines: "for_each (summary_line (snd st1)) (fst st1, Map.empty) (arclinkRequestLines request2)
       = Inr (S2, nc)"
    unfolding summary_request_def Let_def request1_def [symmetric] request2_def [symmetric]
      st1_def [symmetric]
    by (auto split: prod.splits sum.splits)
  from assms lines obtain sm where sm: "summary request2 = Some sm"
    unfolding summary_request_def Let_def request1_def [symmetric] request2_def [symmetric]
      st1_def [symmetric]
    by (auto split: prod.splits sum.splits option.splits)
  have rest: "s_volumes S' = s_volumes S2 \<and> s_streams S' = s_streams S2 \<and>
      s_nets S' = add_netcounts (s_nets S2) nc"
    using assms lines sm
    unfolding summary_request_def Let_def request1_def [symmetric] request2_def [symmetric]
      st1_def [symmetric]
    by (auto split: prod.splits sum.splits option.splits if_splits)
  note f = foldl_summary_sline [of "userID request" S Map.empty "arclinkStatusLines request1",
      folded st1_def, unfolded sl]
  note g = for_each_summary_line [OF lines, unfolded rl ve]
  show "volume_bytes S' v =
           volume_bytes S v +
             sum_list (map (\<lambda>sline. if sl_status sline = ''ERROR'' then 0 else sl_size sline)
               (filter (\<lambda>sline. sl_volumeID sline = v) (status_lines_read db request)))"
    using rest f [of v] g [of undefined] by (simp add: volume_bytes_def)
  show "station_bytes S' k =
           station_bytes S k +
             sum_list (map (line_size (volume_flags (status_lines_read db request)))
               (filter (\<lambda>line. stream_of line = k) (request_lines_read db export request)))"
    using rest f [of undefined] g [of k] by (simp add: station_bytes_def)
  show "dom (s_nets S') =
           dom (s_nets S) \<union>
             {key. \<exists>line \<in> set (request_lines_read db export request). net_key line = Inr key}"
    using rest f [of undefined] g [of undefined] by (simp add: dom_add_netcounts)
qed



lemma summary_request_returns:
  assumes "summary request \<noteq> None"
    and "\<forall>line \<in> set (request_lines_read db export request). networkCode (streamID line) \<noteq> []"
  shows "\<exists>S'. summary_request db export S request = Inr S'"
proof -
  define request1 where "request1 =
    (if length (arclinkStatusLines request) = 0 then loadArclinkStatusLines db request else request)"
  define request2 where "request2 =
    (if export \<and> py_upper (req_type request1) = ''WAVEFORM'' \<and>
        length (arclinkRequestLines request1) = 0
     then loadArclinkRequestLines db request1 else request1)"
  define st1 where "st1 = foldl (summary_sline (userID request)) (S, Map.empty)
    (arclinkStatusLines request1)"
  have rl: "arclinkRequestLines request2 = request_lines_read db export request"
    by (simp add: request2_def request1_def request_lines_read_def Let_def)
  have s1: "summary request1 = summary request" by (simp add: request1_def loaded_summary)
  have s2: "summary request2 = summary request1" by (simp add: request2_def loaded_summary)
  obtain sm where sm: "summary request2 = Some sm"
    using assms(1) unfolding s2 s1 by auto
  obtain st2 where lines:
    "for_each (summary_line (snd st1)) (fst st1, Map.empty) (arclinkRequestLines request2) = Inr st2"
    using for_each_summary_line_returns [of "arclinkRequestLines request2"] assms(2)
    unfolding rl by blast
  show ?thesis
    unfolding summary_request_def Let_def request1_def [symmetric] request2_def [symmetric]
      st1_def [symmetric]
    using lines sm by (auto split: prod.splits)
qed

lemma for_each_summary_request:
  "for_each (summary_request db export) S0 rs = Inr S \<Longrightarrow>
   volume_bytes S v =
     volume_bytes S0 v +
       (\<Sum>request\<leftarrow>rs. \<Sum>sline\<leftarrow>filter (\<lambda>sline. sl_volumeID sline = v)
            (status_lines_read db request).
          if sl_status sline = ''ERROR'' then 0 else sl_size sline) \<and>
   station_bytes S k =
     station_bytes S0 k +
       (\<Sum>request\<leftarrow>rs. \<Sum>line\<leftarrow>filter (\<lambda>line. stream_of line = k)
            (request_lines_read db export request).
          line_size (volume_flags (status_lines_read db request)) line) \<and>
   dom (s_nets S) =
     dom (s_nets S0) \<union>
       {key. \<exists>request \<in> set rs. \<exists>line \<in> set (request_lines_read db export request).
               net_key line = Inr key}"
proof (induction rs arbitrary: S0)
  case Nil
  then show ?case by simp
next
  case (Cons r rs)
  from Cons.prems obtain S1 where
    1: "summary_request db export S0 r = Inr S1" and
    2: "for_each (summary_request db export) S1 rs = Inr S"
    by (auto split: sum.splits)
  note a = summary_request_Inr [OF 1]
  note b = Cons.IH [OF 2]
  have d: "dom (s_nets S) =
     dom (s_nets S0) \<union>
       {key. \<exists>request \<in> set (r # rs). \<exists>line \<in> set (request_lines_read db export request).
               net_key line = Inr key}"
    using b unfolding a(3) by auto
  show ?case using a(1) [of v] a(2) [of k] b d by simp
qed

lemma for_each_summary_request_returns:
  "\<forall>request \<in> set rs. summary request \<noteq> None \<and>
      (\<forall>line \<in> set (request_lines_read db export request). networkCode (streamID line) \<noteq> []) \<Longrightarrow>
   \<exists>S. for_each (summary_request db export) S0 rs = Inr S"
proof (induction rs arbitrary: S0)
  case Nil
  then show ?case by simp
next
  case (Cons r rs)
  obtain S1 where "summary_request db export S0 r = Inr S1"
    using summary_request_returns [of r db export S0] Cons.prems by auto
  then show ?case using Cons.IH [of S1] Cons.prems by simp
qed

lemma Summary_new_bytes:
  "volume_bytes (Summary_new s e) v = 0" "station_bytes (Summary_new s e) k = 0"
  "s_nets (Summary_new s e) = Map.empty" "s_errors (Summary_new s e) = Map.empty"
  by (simp_all add: Summary_new_def volume_bytes_def station_bytes_def)

lemma printRequestSummary_bytes:
  assumes "printRequestSummary db export startTime endTime rs = Inr S"
  shows "volume_bytes S v =
       (\<Sum>request\<leftarrow>rs. \<Sum>sline\<leftarrow>filter (\<lambda>sline. sl_volumeID sline = v)
            (status_lines_read db request).
          if sl_status sline = ''ERROR'' then 0 else sl_size sline)"
    and "station_bytes S k =
       (\<Sum>request\<leftarrow>rs. \<Sum>line\<leftarrow>filter (\<lambda>line. stream_of line = k)
            (request_lines_read db export request).
          line_size (volume_flags (status_lines_read db request)) line)"
    and "dom (s_nets S) =
       {key. \<exists>request \<in> set rs. \<exists>line \<in> set (request_lines_read db export request).
               net_key line = Inr key}"
  using for_each_summary_request [OF assms [unfolded printRequestSummary_def], of v k]
  by (simp_all add: Summary_new_bytes)

lemma printRequestSummary_returns:
  "\<forall>request \<in> set rs. summary request \<noteq> None \<and>
      (\<forall>line \<in> set (request_lines_read db export request). networkCode (streamID line) \<noteq> []) \<Longrightarrow>
   \<exists>S. printRequestSummary db export startTime endTime rs = Inr S"
  unfolding printRequestSummary_def by (rule for_each_summary_request_returns)



lemma toString_2021: "toString 1612137600 ''%Y'' = ''2021''"
  by code_simp

lemma scenario_value:
  "\<exists>S. printRequestSummary empty_db False 1609459200 1640995200 [iu_request, xx_request] = Inr S
     \<and> s_nets S = [''IU'' \<mapsto> (1, 1, 0, 0, 512), ''XX/2021'' \<mapsto> (1, 2, 0, 2, 0)]
     \<and> s_errors S = [''2'' \<mapsto> 2]"
  by (simp add: printRequestSummary_def summary_request_def Summary_new_def iu_request_def
      xx_request_def empty_db_def loadArclinkStatusLines_def summary_line_def net_key_def
      toString_2021 line_size_def setdefault_def count_up_def add3_def add_netcounts_def
      ip_category_def fun_eq_iff)




lemma volume_flags_True:
  "volume_flags slines v = Some True \<longleftrightarrow>
     filter (\<lambda>sline. sl_volumeID sline = v) slines \<noteq> [] \<and>
     sl_status (last (filter (\<lambda>sline. sl_volumeID sline = v) slines)) = ''ERROR''"
  by (simp add: volume_flags_def Let_def)

lemma volume_flags_None:
  "volume_flags slines v = None \<longleftrightarrow> v \<notin> sl_volumeID ` set slines"
  by (auto simp: volume_flags_def Let_def filter_empty_conv)

lemma line_size_cases:
  "line_size ve line =
     (if sl_status (rl_status line) = ''ERROR'' \<or> sl_status (rl_status line) = ''NODATA'' then 0
      else if ve (sl_volumeID (rl_status line)) = Some True then 0
      else sl_size (rl_status line))"
  by (auto simp: line_size_def split: option.splits)

lemma lines_read_empty_db:
  "request_lines_read empty_db False request = arclinkRequestLines request"
  "status_lines_read empty_db request = arclinkStatusLines request"
  by (simp_all add: request_lines_read_def status_lines_read_def loadArclinkStatusLines_def
      empty_db_def)

text \<open>
  Claim C7, as the code has it. After the summary of a list of requests, the bytes counted
  for a volume are the sizes of its status lines whose status is not \<open>ERROR\<close>: a status
  line of status \<open>ERROR\<close> counts 0 bytes whatever size it records. The bytes counted for
  a station are the sizes of its request lines, where a line counts 0 bytes when its own
  status is \<open>ERROR\<close> or \<open>NODATA\<close>, or when the last status line of the request naming
  the line's volume has status \<open>ERROR\<close>, and counts its own recorded size otherwise, in
  particular when no status line of the request names its volume.
\<close>

theorem summary_bytes_of_failed_volumes:
  assumes "printRequestSummary db export startTime endTime rs = Inr S"
  shows "volume_bytes S v =
       (\<Sum>request\<leftarrow>rs. \<Sum>sline\<leftarrow>filter (\<lambda>sline. sl_volumeID sline = v)
            (status_lines_read db request).
          if sl_status sline = ''ERROR'' then 0 else sl_size sline)
   \<and> station_bytes S k =
       (\<Sum>request\<leftarrow>rs. \<Sum>line\<leftarrow>filter (\<lambda>line. stream_of line = k)
            (request_lines_read db export request).
          line_size (volume_flags (status_lines_read db request)) line)
   \<and> line_size (volume_flags slines) line =
       (if sl_status (rl_status line) = ''ERROR'' \<or> sl_status (rl_status line) = ''NODATA'' then 0
        else if volume_flags slines (sl_volumeID (rl_status line)) = Some True then 0
        else sl_size (rl_status line))
   \<and> (volume_flags slines v = Some True \<longleftrightarrow>
        filter (\<lambda>sline. sl_volumeID sline = v) slines \<noteq> [] \<and>
        sl_status (last (filter (\<lambda>sline. sl_volumeID sline = v) slines)) = ''ERROR'')
   \<and> (volume_flags slines v = None \<longleftrightarrow> v \<notin> sl_volumeID ` set slines)"
  using printRequestSummary_bytes(1) [OF assms, of v] printRequestSummary_bytes(2) [OF assms, of k]
    line_size_cases [of "volume_flags slines" line] volume_flags_True [of slines v]
    volume_flags_None [of slines v]
  by blast


theorem summary_bytes_of_failed_volumes_witness:
  "\<exists>S. printRequestSummary empty_db False 1585699200 1585785600 [error_volume_request] = Inr S
     \<and> volume_bytes S ''v1'' = 0 \<and> station_bytes S ''GE.APE'' = 0"
proof -
  have "\<forall>request \<in> set [error_volume_request]. summary request \<noteq> None \<and>
      (\<forall>line \<in> set (request_lines_read empty_db False request). networkCode (streamID line) \<noteq> [])"
    by (simp add: error_volume_request_def lines_read_empty_db)
  then obtain S where
    S: "printRequestSummary empty_db False 1585699200 1585785600 [error_volume_request] = Inr S"
    using printRequestSummary_returns by blast
  note t = summary_bytes_of_failed_volumes [OF S, of "''v1''" "''GE.APE''"
      "status_lines_read empty_db error_volume_request"
      "hd (request_lines_read empty_db False error_volume_request)"]
  have v: "volume_bytes S ''v1'' = 0"
    using t by (simp add: lines_read_empty_db error_volume_request_def)
  have f: "volume_flags (status_lines_read empty_db error_volume_request) ''v1'' = Some True"
    using t by (simp add: lines_read_empty_db error_volume_request_def)
  have k: "station_bytes S ''GE.APE'' = 0"
    using t f
    by (simp add: lines_read_empty_db error_volume_request_def stream_of_def line_size_def)
  show ?thesis using S v k by blast
qed


text \<open>
  Claim C7 as stated fails: a request line of status \<open>NODATA\<close> that records 5 bytes for a
  volume never seen among the status lines counts 0 bytes for its station, not its own
  recorded size.
\<close>

theorem nodata_line_counts_no_bytes:
  "\<exists>S. printRequestSummary empty_db False 1585699200 1585785600 [nodata_request] = Inr S
     \<and> station_bytes S ''GE.APE'' = 0
     \<and> status_lines_read empty_db nodata_request = []
     \<and> map (\<lambda>line. (stream_of line, sl_status (rl_status line), sl_size (rl_status line)))
          (request_lines_read empty_db False nodata_request) = [(''GE.APE'', ''NODATA'', 5)]"
proof -
  have "\<forall>request \<in> set [nodata_request]. summary request \<noteq> None \<and>
      (\<forall>line \<in> set (request_lines_read empty_db False request). networkCode (streamID line) \<noteq> [])"
    by (simp add: nodata_request_def lines_read_empty_db)
  then obtain S where
    S: "printRequestSummary empty_db False 1585699200 1585785600 [nodata_request] = Inr S"
    using printRequestSummary_returns by blast
  have k: "station_bytes S ''GE.APE'' = 0"
    using printRequestSummary_bytes(2) [OF S, of "''GE.APE''"]
    by (simp add: lines_read_empty_db nodata_request_def stream_of_def line_size_def)
  have s: "status_lines_read empty_db nodata_request = []"
    by (simp add: lines_read_empty_db nodata_request_def)
  have l: "map (\<lambda>line. (stream_of line, sl_status (rl_status line), sl_size (rl_status line)))
          (request_lines_read empty_db False nodata_request) = [(''GE.APE'', ''NODATA'', 5)]"
    by (simp add: lines_read_empty_db nodata_request_def stream_of_def)
  show ?thesis using S k s l by (intro exI conjI)
qed


text \<open>
  The key of a request line in the roll-up by network: a code that starts with \<open>X\<close>,
  \<open>Y\<close> or \<open>Z\<close> is followed by \<open>/\<close> and the year of the line's start; any other
  non-empty code is the key itself. The keys of \<open>nets\<close> after the summary are the keys of
  the request lines read. In the scenario of two requests, \<open>nets\<close> has the keys \<open>IU\<close> and
  \<open>XX/2021\<close>, each counting one request, and \<open>errors\<close> maps request 2 to 2.
\<close>

lemma network_keys_by_year:
  "net_key line =
     (if networkCode (streamID line) = [] then Inl IndexError
      else if hd (networkCode (streamID line)) \<in> {CHR ''X'', CHR ''Y'', CHR ''Z''}
      then Inr (networkCode (streamID line) @ ''/'' @
                fmt_d 4 (c_year (civil_from_days (rl_start line div 86400))))
      else Inr (networkCode (streamID line)))
   \<and> (\<forall>S. printRequestSummary db export startTime endTime rs = Inr S \<longrightarrow>
         dom (s_nets S) =
           {key. \<exists>request \<in> set rs. \<exists>line \<in> set (request_lines_read db export request).
                   net_key line = Inr key})
   \<and> (\<exists>S. printRequestSummary empty_db False 1609459200 1640995200 [iu_request, xx_request] = Inr S
         \<and> s_nets S = [''IU'' \<mapsto> (1, 1, 0, 0, 512), ''XX/2021'' \<mapsto> (1, 2, 0, 2, 0)]
         \<and> dom (s_nets S) = {''IU'', ''XX/2021''}
         \<and> s_errors S = [''2'' \<mapsto> 2])"
proof -
  have 1: "net_key line =
     (if networkCode (streamID line) = [] then Inl IndexError
      else if hd (networkCode (streamID line)) \<in> {CHR ''X'', CHR ''Y'', CHR ''Z''}
      then Inr (networkCode (streamID line) @ ''/'' @
                fmt_d 4 (c_year (civil_from_days (rl_start line div 86400))))
      else Inr (networkCode (streamID line)))"
    unfolding net_key_cases toString_Y by (rule refl)
  have 2: "\<forall>S. printRequestSummary db export startTime endTime rs = Inr S \<longrightarrow>
         dom (s_nets S) =
           {key. \<exists>request \<in> set rs. \<exists>line \<in> set (request_lines_read db export request).
                   net_key line = Inr key}"
    using printRequestSummary_bytes(3) by blast
  obtain S where S:
    "printRequestSummary empty_db False 1609459200 1640995200 [iu_request, xx_request] = Inr S"
    "s_nets S = [''IU'' \<mapsto> (1, 1, 0, 0, 512), ''XX/2021'' \<mapsto> (1, 2, 0, 2, 0)]"
    "s_errors S = [''2'' \<mapsto> 2]"
    using scenario_value by blast
  have d: "dom (s_nets S) = {''IU'', ''XX/2021''}" unfolding S(2) by auto
  have 3: "\<exists>S. printRequestSummary empty_db False 1609459200 1640995200 [iu_request, xx_request] = Inr S
         \<and> s_nets S = [''IU'' \<mapsto> (1, 1, 0, 0, 512), ''XX/2021'' \<mapsto> (1, 2, 0, 2, 0)]
         \<and> dom (s_nets S) = {''IU'', ''XX/2021''}
         \<and> s_errors S = [''2'' \<mapsto> 2]"
    by (intro exI [of _ S] conjI) (rule S(1), rule S(2), rule d, rule S(3))
  show ?thesis by (intro conjI) (rule 1, rule 2, rule 3)
qed


lemma network_keys_by_year_example:
  "(\<exists>S. printRequestSummary empty_db False 1609459200 1640995200 [xx_request] = Inr S
      \<and> dom (s_nets S) = {''XX/2021''})
   \<and> net_key (hd (arclinkRequestLines iu_request)) = Inr ''IU''"
proof -
  note t = network_keys_by_year [of "hd (arclinkRequestLines iu_request)" empty_db False
      1609459200 1640995200 "[xx_request]"]
  have "\<forall>request \<in> set [xx_request]. summary request \<noteq> None \<and>
      (\<forall>line \<in> set (request_lines_read empty_db False request). networkCode (streamID line) \<noteq> [])"
    by (simp add: xx_request_def lines_read_empty_db)
  then obtain S where
    S: "printRequestSummary empty_db False 1609459200 1640995200 [xx_request] = Inr S"
    using printRequestSummary_returns by blast
  have d: "dom (s_nets S) =
      {key. \<exists>request \<in> set [xx_request]. \<exists>line \<in> set (request_lines_read empty_db False request).
                   net_key line = Inr key}"
    by (rule t [THEN conjunct2, THEN conjunct1, rule_format, OF S])
  have "dom (s_nets S) = {''XX/2021''}"
    unfolding d
    by (auto simp: xx_request_def lines_read_empty_db net_key_def toString_2021)
  moreover have "net_key (hd (arclinkRequestLines iu_request)) = Inr ''IU''"
    unfolding t [THEN conjunct1] by (simp add: iu_request_def)
  ultimately show ?thesis using S by (intro conjI exI [of _ S])
qed



text \<open>
  Claim C8 at a request line whose network code is empty: \<open>netcode[0]\<close> raises
  \<open>IndexError\<close>, so the line gets no key and the summary ends with the exception.
\<close>

theorem empty_network_code_raises:
  "networkCode (streamID (hd (arclinkRequestLines empty_net_request))) = []
   \<and> net_key (hd (arclinkRequestLines empty_net_request)) = Inl IndexError
   \<and> printRequestSummary empty_db False 1585699200 1585785600 [empty_net_request] = Inl IndexError"
  by (simp add: printRequestSummary_def summary_request_def Summary_new_def empty_net_request_def
      empty_db_def loadArclinkStatusLines_def summary_line_def net_key_def)

end
